theory Spec2Isabelle
  imports Complex_Main
begin

section \<open>kdsb17.model: model classes over the Keras layer graph\<close>

text \<open>
  The module \<^verbatim>\<open>kdsb17/model.py\<close> wires Keras layers into two networks
  (\<^verbatim>\<open>GaussianMixtureCAE\<close> and \<^verbatim>\<open>LungNet\<close>) and provides the common
  facilities to compile, train and query them (\<^verbatim>\<open>NakedModel\<close>).  The embedding keeps
  every constructor call of the source as a value of a datatype (a layer with the arguments
  it is given), every call of a layer on tensors as a node of a graph, every Python
  exception as a value of \<open>error\<close>, and every effect on the outside (directories,
  standard output, calls of the framework) as an entry of a log.
\<close>

subsection \<open>Python values\<close>

datatype error =
    ValueError string
  | IndexError string
  | AttributeError string
  | RuntimeError string
  | TypeError string

text \<open>\<^verbatim>\<open>'%d' % i\<close> for an index \<open>i\<close> produced by \<^verbatim>\<open>enumerate\<close>.\<close>

definition digit :: "nat \<Rightarrow> char" where
  "digit d = char_of (48 + d)"

fun str_nat :: "nat \<Rightarrow> string" where
  "str_nat n = (if n < 10 then [digit n] else str_nat (n div 10) @ [digit (n mod 10)])"

declare str_nat.simps [simp del]

text \<open>\<^verbatim>\<open>os.path.join(a, b)\<close> (posixpath).\<close>

definition os_path_join :: "string \<Rightarrow> string \<Rightarrow> string" where
  "os_path_join a b =
     (if b \<noteq> [] \<and> hd b = CHR ''/'' then b
      else if a = [] \<or> last a = CHR ''/'' then a @ b
      else a @ ''/'' @ b)"

subsection \<open>Keras layers, tensors and models\<close>

text \<open>
  A layer is the constructor call that creates it, with the arguments of the source.
  Dimensions are Python integers, or \<^verbatim>\<open>None\<close> for a dimension left open.
\<close>

type_synonym dim = "int option"
type_synonym triple = "int \<times> int \<times> int"

datatype padding = Same | Valid

datatype activation = activation_name string | log_softmax

datatype layer =
    Input "dim list" string
  | Conv3D int triple triple padding string
  | Conv3DTranspose int triple triple padding string
  | BatchNormalization int int string
  | Activation string string
  | Flatten string
  | Dense int "activation option" string
  | ShiftedELU real real string
  | Concatenate int string
  | SpatialPyramidPooling3D "int list" string
  | Dropout real string

fun layer_name :: "layer \<Rightarrow> string" where
  "layer_name (Input shape name) = name"
| "layer_name (Conv3D filters kernel_size strides padding name) = name"
| "layer_name (Conv3DTranspose filters kernel_size strides padding name) = name"
| "layer_name (BatchNormalization mode axis name) = name"
| "layer_name (Activation act name) = name"
| "layer_name (Flatten name) = name"
| "layer_name (Dense units act name) = name"
| "layer_name (ShiftedELU shift alpha name) = name"
| "layer_name (Concatenate axis name) = name"
| "layer_name (SpatialPyramidPooling3D nb_bins_per_level name) = name"
| "layer_name (Dropout rate name) = name"

text \<open>A tensor is the result of calling a layer on a list of tensors (none for \<open>Input\<close>).\<close>

datatype tensor = Tensor layer "tensor list"

datatype loss = build_gmd_log_likelihood int int | loss_name string

record compile_args =
  compile_optimizer :: string
  compile_loss :: "loss option"
  compile_metrics :: "string list"

record klayer =
  config :: layer
  trainable :: bool

record kmodel =
  inputs :: tensor
  outputs :: tensor
  layers :: "klayer list"
  compiled :: "compile_args option"

subsection \<open>Callbacks and the outside world\<close>

datatype callback =
    ModelCheckpoint string string bool bool
  | EarlyStopping string int int
  | CSVLogger string
  | BatchLossCSVLogger string
  | TensorBoard string int bool
  | TerminateOnNaN

datatype generator = Generator nat

record fit_generator_call =
  generator :: generator
  steps_per_epoch :: int
  epochs :: int
  callbacks :: "callback list"
  validation_data :: generator
  validation_steps :: int

text \<open>
  What the code does to the outside, in the order it does it: \<^verbatim>\<open>makedir\<close>,
  \<^verbatim>\<open>print\<close>, and the calls of methods of the Keras model.  \<open>uids\<close> is the
  framework's counter for the names of layers created without one.
\<close>

datatype event =
    Makedir string
  | Print string
  | Call_fit_generator kmodel fit_generator_call
  | Call_load_weights kmodel string bool
  | Call_predict kmodel "nat list"

record world =
  uids :: "string \<Rightarrow> nat"
  log :: "event list"

definition emit :: "event \<Rightarrow> world \<Rightarrow> world" where
  "emit e w = w\<lparr>log := log w @ [e]\<rparr>"

subsection \<open>NakedModel\<close>

record NakedModel =
  model_path :: string
  weights_name_format :: string
  optimizer :: string
  es_patience :: int
  histogram_freq :: int
  loss :: "loss option"
  input_layer :: "tensor option"
  output_layer :: "tensor option"
  model :: "kmodel option"

definition NakedModel_init :: "string \<Rightarrow> int \<Rightarrow> string \<Rightarrow> string \<Rightarrow> int \<Rightarrow> NakedModel" where
  "NakedModel_init optimizer' es_patience' model_path' weights_name_format' histogram_freq' =
     \<lparr>model_path = model_path', weights_name_format = weights_name_format',
      optimizer = optimizer', es_patience = es_patience', histogram_freq = histogram_freq',
      loss = None, input_layer = None, output_layer = None, model = None\<rparr>"

definition build_callbacks :: "'a NakedModel_scheme \<Rightarrow> world \<Rightarrow> callback list \<times> world" where
  "build_callbacks self w =
     (let w1 = emit (Makedir (model_path self)) w;
          checkpointer = ModelCheckpoint (os_path_join (model_path self) (weights_name_format self))
                           ''val_loss'' True True;
          early_stopper = EarlyStopping ''val_loss'' 0 (es_patience self);
          epoch_logger = CSVLogger (os_path_join (model_path self) ''epoch_log.csv'');
          batch_logger = BatchLossCSVLogger (os_path_join (model_path self) ''batch_log.csv'');
          tensorboard_path = os_path_join (model_path self) ''tensorboard'';
          tensorboard = TensorBoard tensorboard_path (histogram_freq self) (histogram_freq self > 0);
          terminator = TerminateOnNaN
      in ([checkpointer, early_stopper, epoch_logger, batch_logger, tensorboard, terminator], w1))"

text \<open>
  \<open>kfit\<close> is the framework's \<^verbatim>\<open>Model.fit_generator\<close>: what it returns for a model
  and the arguments of the call.
\<close>

definition fit_generator ::
  "(kmodel \<Rightarrow> fit_generator_call \<Rightarrow> error + 'h) \<Rightarrow> 'a NakedModel_scheme \<Rightarrow>
   generator \<Rightarrow> int \<Rightarrow> int \<Rightarrow> generator \<Rightarrow> int \<Rightarrow> world \<Rightarrow> (error + 'h) \<times> world" where
  "fit_generator kfit self train_generator steps_per_epoch' epochs' validation_generator
                 validation_steps' w =
     (let (callbacks', w1) = build_callbacks self w in
      case model self of
        None \<Rightarrow> (Inl (AttributeError ''NoneType object has no attribute fit_generator''), w1)
      | Some m \<Rightarrow>
          (let call = \<lparr>generator = train_generator, steps_per_epoch = steps_per_epoch',
                       epochs = epochs', callbacks = callbacks',
                       validation_data = validation_generator,
                       validation_steps = validation_steps'\<rparr>
           in (kfit m call, emit (Call_fit_generator m call) w1)))"

text \<open>
  The framework's \<^verbatim>\<open>Model(inputs, outputs)\<close>, as far as this module depends on it:
  the model holds the layers of the graph that ends in \<open>outputs\<close>, every node once and
  every layer trainable, and it refuses two layers of the same name.
\<close>

fun tensor_layer :: "tensor \<Rightarrow> layer" where
  "tensor_layer (Tensor l ts) = l"

fun nodes :: "tensor \<Rightarrow> tensor list" where
  "nodes (Tensor l ts) = concat (map nodes ts) @ [Tensor l ts]"

definition keras_Model :: "tensor option \<Rightarrow> tensor option \<Rightarrow> error + kmodel" where
  "keras_Model i out =
     (case (i, out) of
        (Some i', Some out') \<Rightarrow>
          (let ls = map tensor_layer (remdups (nodes out')) in
           if \<not> distinct (map layer_name ls)
           then Inl (RuntimeError ''All layer names should be unique.'')
           else Inr \<lparr>inputs = i', outputs = out',
                     layers = map (\<lambda>l. \<lparr>config = l, trainable = True\<rparr>) ls,
                     compiled = None\<rparr>)
      | _ \<Rightarrow> Inl (TypeError ''Input tensors to a Model must be Keras tensors.''))"

text \<open>\<^verbatim>\<open>Model.get_layer(name=...)\<close>: the position of the first layer of that name.\<close>

fun get_layer_from :: "klayer list \<Rightarrow> string \<Rightarrow> nat \<Rightarrow> error + nat" where
  "get_layer_from [] name k = Inl (ValueError (''No such layer: '' @ name))"
| "get_layer_from (l # ls) name k =
     (if layer_name (config l) = name then Inr k else get_layer_from ls name (Suc k))"

definition get_layer :: "kmodel \<Rightarrow> string \<Rightarrow> error + nat" where
  "get_layer m name = get_layer_from (layers m) name 0"

text \<open>
  The loop of \<^verbatim>\<open>build_model\<close> over \<^verbatim>\<open>freeze\<close>.  An exception leaves the model
  as the iterations before it made it.
\<close>

fun freeze_layers :: "string list \<Rightarrow> kmodel \<Rightarrow> world \<Rightarrow> (error + unit) \<times> kmodel \<times> world" where
  "freeze_layers [] m w = (Inr (), m, w)"
| "freeze_layers (layer_name' # rest) m w =
     (case get_layer m layer_name' of
        Inl e \<Rightarrow> (Inl e, m, w)
      | Inr k \<Rightarrow>
          (let layer' = (layers m ! k)\<lparr>trainable := False\<rparr>;
               m1 = m\<lparr>layers := (layers m)[k := layer']\<rparr>;
               w1 = emit (Print (layer_name' @ '' is set to '' @
                                 (if trainable layer' then ''1'' else ''0''))) w
           in freeze_layers rest m1 w1))"

definition compile_model :: "'a NakedModel_scheme \<Rightarrow> 'a NakedModel_scheme" where
  "compile_model self =
     self\<lparr>model := map_option
        (\<lambda>m. m\<lparr>compiled := Some \<lparr>compile_optimizer = optimizer self, compile_loss = loss self,
                                  compile_metrics = []\<rparr>\<rparr>)
        (model self)\<rparr>"

text \<open>
  \<^verbatim>\<open>NakedModel.build_model\<close>.  The two methods a subclass overrides,
  \<^verbatim>\<open>_build_layers\<close> and \<^verbatim>\<open>_compile_model\<close>, are arguments.  The result
  carries the object as the call leaves it, also when it raises.
\<close>

definition build_model ::
  "('a NakedModel_scheme \<Rightarrow> world \<Rightarrow> 'a NakedModel_scheme \<times> world) \<Rightarrow>
   ('a NakedModel_scheme \<Rightarrow> 'a NakedModel_scheme) \<Rightarrow>
   'a NakedModel_scheme \<Rightarrow> string list option \<Rightarrow> world \<Rightarrow>
   (error + unit) \<times> 'a NakedModel_scheme \<times> world" where
  "build_model build_layers' compile_model' self freeze w =
     (let (self1, w1) = build_layers' self w in
      case keras_Model (input_layer self1) (output_layer self1) of
        Inl e \<Rightarrow> (Inl e, self1, w1)
      | Inr m \<Rightarrow>
          (case (case freeze of None \<Rightarrow> (Inr (), m, w1)
                              | Some names \<Rightarrow> freeze_layers names m w1) of
             (Inl e, m1, w2) \<Rightarrow> (Inl e, self1\<lparr>model := Some m1\<rparr>, w2)
           | (Inr u, m1, w2) \<Rightarrow> (Inr (), compile_model' (self1\<lparr>model := Some m1\<rparr>), w2)))"


subsection \<open>Encoder\<close>

text \<open>
  \<^verbatim>\<open>GaussianMixtureCAE\<close> and \<^verbatim>\<open>LungNet\<close> inherit from both \<^verbatim>\<open>Encoder\<close>
  and \<^verbatim>\<open>NakedModel\<close>; the records extend one another in a line, and the methods of
  \<^verbatim>\<open>Encoder\<close> read the fields of \<^verbatim>\<open>Encoder\<close> only.
\<close>

record Encoder = NakedModel +
  nb_filters_per_layer :: "int list"
  kernel_size :: triple
  padding :: padding
  batch_normalization :: bool

definition custom_conv3d :: "'a Encoder_scheme \<Rightarrow> tensor \<Rightarrow> int \<Rightarrow> triple \<Rightarrow> string \<Rightarrow> tensor" where
  "custom_conv3d self layer nb_filters strides name =
     (let layer1 = Tensor (Conv3D nb_filters (kernel_size self) strides (padding self)
                             (''encoder_conv_'' @ name)) [layer];
          layer2 = (if batch_normalization self
                    then Tensor (BatchNormalization 0 1 (''encoder_bn_'' @ name)) [layer1]
                    else layer1)
      in Tensor (Activation ''relu'' (''encoder_act_'' @ name)) [layer2])"

definition encoder_block :: "'a Encoder_scheme \<Rightarrow> nat \<times> int \<Rightarrow> tensor \<Rightarrow> tensor" where
  "encoder_block self = (\<lambda>(i, nb_filters) layer.
     (let layer1 = custom_conv3d self layer nb_filters (1, 1, 1) (''1-2_'' @ str_nat i)
      in custom_conv3d self layer1 nb_filters (2, 2, 2) (''2-1_'' @ str_nat i)))"

definition build_encoder_layers :: "'a Encoder_scheme \<Rightarrow> tensor \<Rightarrow> tensor" where
  "build_encoder_layers self layer =
     fold (encoder_block self) (enumerate 0 (nb_filters_per_layer self)) layer"

subsection \<open>GaussianMixtureCAE\<close>

record GaussianMixtureCAE = Encoder +
  input_shape :: triple
  n_gaussians :: int
  n_dense_log_prior :: int
  n_dense_sigma_sq :: int

definition GaussianMixtureCAE_init ::
  "int \<Rightarrow> triple \<Rightarrow> int list \<Rightarrow> triple \<Rightarrow> padding \<Rightarrow> bool \<Rightarrow>
   string \<Rightarrow> int \<Rightarrow> string \<Rightarrow> string \<Rightarrow> int \<Rightarrow> GaussianMixtureCAE" where
  "GaussianMixtureCAE_init n_gaussians' input_shape' nb_filters_per_layer' kernel_size' padding'
       batch_normalization' optimizer' es_patience' model_path' weights_name_format'
       histogram_freq' =
     (let (z, y, x) = input_shape';
          c = z * y * x
      in \<lparr>model_path = model_path', weights_name_format = weights_name_format',
          optimizer = optimizer', es_patience = es_patience', histogram_freq = histogram_freq',
          loss = Some (build_gmd_log_likelihood c n_gaussians'),
          input_layer = None, output_layer = None, model = None,
          nb_filters_per_layer = nb_filters_per_layer', kernel_size = kernel_size',
          padding = padding', batch_normalization = batch_normalization',
          input_shape = input_shape', n_gaussians = n_gaussians',
          n_dense_log_prior = 128, n_dense_sigma_sq = 128\<rparr>)"

definition custom_conv3dtranspose ::
  "'a Encoder_scheme \<Rightarrow> tensor \<Rightarrow> int \<Rightarrow> triple \<Rightarrow> string \<Rightarrow> tensor" where
  "custom_conv3dtranspose self layer nb_filters strides name =
     (let layer1 = Tensor (Conv3DTranspose nb_filters (kernel_size self) strides (padding self)
                             (''decoder_conv_'' @ name)) [layer];
          layer2 = (if batch_normalization self
                    then Tensor (BatchNormalization 0 1 (''decoder_bn_'' @ name)) [layer1]
                    else layer1)
      in Tensor (Activation ''relu'' (''decoder_act_'' @ name)) [layer2])"

definition decoder_block :: "'a Encoder_scheme \<Rightarrow> nat \<times> int \<Rightarrow> tensor \<Rightarrow> tensor" where
  "decoder_block self = (\<lambda>(i, nb_filters) layer.
     (let layer1 = custom_conv3dtranspose self layer nb_filters (2, 2, 2) (''2-1_'' @ str_nat i)
      in custom_conv3dtranspose self layer1 nb_filters (1, 1, 1) (''1-2_'' @ str_nat i)))"

definition build_decoder_layers :: "'a Encoder_scheme \<Rightarrow> tensor \<Rightarrow> tensor" where
  "build_decoder_layers self layer =
     fold (decoder_block self) (enumerate 0 (rev (nb_filters_per_layer self))) layer"

definition build_gmd_layers :: "'a GaussianMixtureCAE_scheme \<Rightarrow> tensor \<Rightarrow> tensor \<Rightarrow> tensor" where
  "build_gmd_layers self encoded decoded =
     (let log_prior1 = Tensor (Conv3D 1 (kernel_size self) (1, 1, 1) Same ''log_prior_conv3d'') [encoded];
          log_prior2 = Tensor (Flatten ''log_prior_flatten'') [log_prior1];
          log_prior3 = Tensor (Dense (n_dense_log_prior self) (Some (activation_name ''relu''))
                                 ''log_prior_dense_1'') [log_prior2];
          log_prior = Tensor (Dense (n_gaussians self) (Some log_softmax) ''log_prior'') [log_prior3];
          mu1 = Tensor (Conv3D (n_gaussians self) (kernel_size self) (1, 1, 1) Same ''mu_conv3d'') [decoded];
          mu = Tensor (Flatten ''mu'') [mu1];
          sigma_sq1 = Tensor (Conv3D 1 (kernel_size self) (1, 1, 1) Same ''sigma_sq_conv3d'') [encoded];
          sigma_sq2 = Tensor (Flatten ''sigma_sq_flatten'') [sigma_sq1];
          sigma_sq3 = Tensor (Dense (n_dense_sigma_sq self) (Some (activation_name ''relu''))
                                ''sigma_sq_dense_1'') [sigma_sq2];
          sigma_sq4 = Tensor (Dense (n_gaussians self) None ''sigma_sq_dense_2'') [sigma_sq3];
          sigma_sq = Tensor (ShiftedELU 1.0 1.0 ''sigma_sq'') [sigma_sq4]
      in Tensor (Concatenate (- 1) ''gmd'') [log_prior, sigma_sq, mu])"

text \<open>
  A layer created without a name gets one from the framework: its prefix, an underscore
  and the next number of the counter of that prefix.
\<close>

definition get_uid :: "string \<Rightarrow> world \<Rightarrow> nat \<times> world" where
  "get_uid prefix w = (let k = uids w prefix + 1 in (k, w\<lparr>uids := (uids w)(prefix := k)\<rparr>))"

definition auto_name :: "string \<Rightarrow> world \<Rightarrow> string \<times> world" where
  "auto_name prefix w = (let (k, w1) = get_uid prefix w in (prefix @ ''_'' @ str_nat k, w1))"

definition GaussianMixtureCAE_build_layers ::
  "'a GaussianMixtureCAE_scheme \<Rightarrow> world \<Rightarrow> 'a GaussianMixtureCAE_scheme \<times> world" where
  "GaussianMixtureCAE_build_layers self w =
     (let (z, y, x) = input_shape self;
          (name, w1) = auto_name ''input'' w;
          input = Tensor (Input [Some z, Some y, Some x, Some 1] name) [];
          encoded = build_encoder_layers self input;
          decoded = build_decoder_layers self encoded
      in (self\<lparr>input_layer := Some input,
               output_layer := Some (build_gmd_layers self encoded decoded)\<rparr>, w1))"

definition GaussianMixtureCAE_build_model ::
  "'a GaussianMixtureCAE_scheme \<Rightarrow> string list option \<Rightarrow> world \<Rightarrow>
   (error + unit) \<times> 'a GaussianMixtureCAE_scheme \<times> world" where
  "GaussianMixtureCAE_build_model = build_model GaussianMixtureCAE_build_layers compile_model"

subsection \<open>LungNet\<close>

record LungNet = Encoder +
  spp_nb_bins_per_level :: "int list"
  n_dense :: "int list"
  dropout_rate :: real

definition LungNet_init ::
  "int list \<Rightarrow> triple \<Rightarrow> padding \<Rightarrow> bool \<Rightarrow> int list \<Rightarrow> int list \<Rightarrow> real \<Rightarrow>
   string \<Rightarrow> int \<Rightarrow> string \<Rightarrow> string \<Rightarrow> LungNet" where
  "LungNet_init nb_filters_per_layer' kernel_size' padding' batch_normalization'
       spp_nb_bins_per_level' n_dense' dropout_rate' optimizer' es_patience' model_path'
       weights_name_format' =
     \<lparr>model_path = model_path', weights_name_format = weights_name_format',
      optimizer = optimizer', es_patience = es_patience', histogram_freq = 0,
      loss = Some (loss_name ''binary_crossentropy''),
      input_layer = None, output_layer = None, model = None,
      nb_filters_per_layer = nb_filters_per_layer', kernel_size = kernel_size',
      padding = padding', batch_normalization = batch_normalization',
      spp_nb_bins_per_level = spp_nb_bins_per_level', n_dense = n_dense',
      dropout_rate = dropout_rate'\<rparr>"

fun classifier_dense_layers :: "real \<Rightarrow> int list \<Rightarrow> tensor \<Rightarrow> world \<Rightarrow> tensor \<times> world" where
  "classifier_dense_layers rate [] h w = (h, w)"
| "classifier_dense_layers rate (n # ns) h w =
     (let (name, w1) = auto_name ''dense'' w;
          h1 = Tensor (Dense n (Some (activation_name ''relu'')) name) [h]
      in if rate \<noteq> 0
         then (let (name', w2) = auto_name ''dropout'' w1;
                   h2 = Tensor (Dropout rate name') [h1]
               in classifier_dense_layers rate ns h2 w2)
         else classifier_dense_layers rate ns h1 w1)"

definition build_classifier_layers :: "'a LungNet_scheme \<Rightarrow> tensor \<Rightarrow> world \<Rightarrow> tensor \<times> world" where
  "build_classifier_layers self encoded w =
     (let h = Tensor (SpatialPyramidPooling3D (spp_nb_bins_per_level self) ''spp3d'') [encoded];
          (h', w1) = classifier_dense_layers (dropout_rate self) (n_dense self) h w;
          (name, w2) = auto_name ''dense'' w1
      in (Tensor (Dense 1 (Some (activation_name ''sigmoid'')) name) [h'], w2))"

definition LungNet_build_layers :: "'a LungNet_scheme \<Rightarrow> world \<Rightarrow> 'a LungNet_scheme \<times> world" where
  "LungNet_build_layers self w =
     (let (name, w1) = auto_name ''input'' w;
          input = Tensor (Input [None, None, None, Some 1] name) [];
          encoded = build_encoder_layers self input;
          (y, w2) = build_classifier_layers self encoded w1
      in (self\<lparr>input_layer := Some input, output_layer := Some y\<rparr>, w2))"

definition LungNet_compile_model :: "'a LungNet_scheme \<Rightarrow> 'a LungNet_scheme" where
  "LungNet_compile_model self =
     self\<lparr>model := map_option
        (\<lambda>m. m\<lparr>compiled := Some \<lparr>compile_optimizer = optimizer self, compile_loss = loss self,
                                  compile_metrics = [''accuracy'']\<rparr>\<rparr>)
        (model self)\<rparr>"


subsection \<open>Shapes\<close>

text \<open>
  The shape a tensor has, as the framework infers it when the graph is built (the
  \<^verbatim>\<open>compute_output_shape\<close> of each layer), the batch dimension first.
  \<open>conv_output_length\<close> and \<open>deconv_length\<close> are the framework's functions of
  the same names.  \<^verbatim>\<open>Flatten\<close> and \<^verbatim>\<open>Dense\<close> raise on a dimension that is not
  truthy (\<^verbatim>\<open>None\<close> or 0); \<^verbatim>\<open>Concatenate\<close> requires shapes that agree outside
  the axis.
\<close>

definition conv_output_length :: "dim \<Rightarrow> int \<Rightarrow> padding \<Rightarrow> int \<Rightarrow> dim" where
  "conv_output_length input_length filter_size padding' stride =
     (case input_length of
        None \<Rightarrow> None
      | Some n \<Rightarrow>
          (let output_length = (case padding' of Same \<Rightarrow> n | Valid \<Rightarrow> n - filter_size + 1)
           in Some ((output_length + stride - 1) div stride)))"

definition deconv_length :: "dim \<Rightarrow> int \<Rightarrow> int \<Rightarrow> padding \<Rightarrow> dim" where
  "deconv_length dim_size stride_size kernel_size' padding' =
     (case dim_size of
        None \<Rightarrow> None
      | Some d \<Rightarrow>
          Some (case padding' of
                  Valid \<Rightarrow> d * stride_size + max (kernel_size' - stride_size) 0
                | Same \<Rightarrow> d * stride_size))"

definition truthy :: "dim \<Rightarrow> bool" where
  "truthy d = (case d of None \<Rightarrow> False | Some n \<Rightarrow> n \<noteq> 0)"

fun prod_dims :: "dim list \<Rightarrow> int" where
  "prod_dims [] = 1"
| "prod_dims (None # ds) = 0"
| "prod_dims (Some n # ds) = n * prod_dims ds"

fun add_dim :: "dim \<Rightarrow> dim \<Rightarrow> dim" where
  "add_dim (Some a) (Some b) = Some (a + b)"
| "add_dim a b = None"

definition concatenate_shape :: "int \<Rightarrow> dim list list \<Rightarrow> dim list option" where
  "concatenate_shape axis shapes =
     (case shapes of
        [] \<Rightarrow> None
      | s # rest \<Rightarrow>
          (let n = int (length s);
               a = (if axis < 0 then n + axis else axis)
           in if a < 0 \<or> n \<le> a
                 \<or> list_ex (\<lambda>t. length t \<noteq> length s \<or> t[nat a := None] \<noteq> s[nat a := None]) rest
              then None
              else Some (s[nat a := fold (\<lambda>t acc. add_dim acc (t ! nat a)) rest (s ! nat a)])))"

definition conv3d_output_shape ::
  "int \<Rightarrow> triple \<Rightarrow> triple \<Rightarrow> padding \<Rightarrow> dim list \<Rightarrow> dim list option" where
  "conv3d_output_shape filters kernel_size' strides padding' input_shape' =
     (let (k1, k2, k3) = kernel_size'; (s1, s2, s3) = strides in
      case input_shape' of
        [b, d1, d2, d3, c] \<Rightarrow>
          Some [b, conv_output_length d1 k1 padding' s1, conv_output_length d2 k2 padding' s2,
                conv_output_length d3 k3 padding' s3, Some filters]
      | _ \<Rightarrow> None)"

definition conv3dtranspose_output_shape ::
  "int \<Rightarrow> triple \<Rightarrow> triple \<Rightarrow> padding \<Rightarrow> dim list \<Rightarrow> dim list option" where
  "conv3dtranspose_output_shape filters kernel_size' strides padding' input_shape' =
     (let (k1, k2, k3) = kernel_size'; (s1, s2, s3) = strides in
      case input_shape' of
        [b, d1, d2, d3, c] \<Rightarrow>
          Some [b, deconv_length d1 s1 k1 padding', deconv_length d2 s2 k2 padding',
                deconv_length d3 s3 k3 padding', Some filters]
      | _ \<Rightarrow> None)"

definition flatten_output_shape :: "dim list \<Rightarrow> dim list option" where
  "flatten_output_shape input_shape' =
     (case input_shape' of
        [] \<Rightarrow> None
      | b # ds \<Rightarrow> if list_all truthy ds then Some [b, Some (prod_dims ds)] else None)"

definition dense_output_shape :: "int \<Rightarrow> dim list \<Rightarrow> dim list option" where
  "dense_output_shape units input_shape' =
     (if 2 \<le> length input_shape' \<and> truthy (last input_shape')
      then Some (butlast input_shape' @ [Some units]) else None)"

text \<open>
  Modelled from the spec: \<^verbatim>\<open>kdsb17.layers.SpatialPyramidPooling3D\<close> is not among
  the sources.  It is "a spatial-pyramid-pooling layer enabling variable-size 3D inputs":
  for every level with \<open>n\<close> bins per axis it pools each channel over \<open>n * n * n\<close>
  regions, so its output is a vector of fixed length, the number of channels times the
  number of regions of all levels, whatever the spatial size of its input.
\<close>

definition spp3d_output_shape :: "int list \<Rightarrow> dim list \<Rightarrow> dim list option" where
  "spp3d_output_shape nb_bins_per_level input_shape' =
     (case input_shape' of
        [b, d1, d2, d3, Some nb_channels] \<Rightarrow>
          Some [b, Some (nb_channels * (\<Sum>n\<leftarrow>nb_bins_per_level. n * n * n))]
      | _ \<Rightarrow> None)"

definition single :: "'a list \<Rightarrow> 'a option" where
  "single xs = (case xs of [x] \<Rightarrow> Some x | _ \<Rightarrow> None)"

definition compute_output_shape :: "layer \<Rightarrow> dim list list \<Rightarrow> dim list option" where
  "compute_output_shape l shapes =
     (case l of
        Input shape name \<Rightarrow> (if shapes = [] then Some (None # shape) else None)
      | Conv3D filters kernel_size' strides padding' name \<Rightarrow>
          Option.bind (single shapes) (conv3d_output_shape filters kernel_size' strides padding')
      | Conv3DTranspose filters kernel_size' strides padding' name \<Rightarrow>
          Option.bind (single shapes) (conv3dtranspose_output_shape filters kernel_size' strides padding')
      | BatchNormalization mode axis name \<Rightarrow> single shapes
      | Activation act name \<Rightarrow> single shapes
      | Flatten name \<Rightarrow> Option.bind (single shapes) flatten_output_shape
      | Dense units act name \<Rightarrow> Option.bind (single shapes) (dense_output_shape units)
      | ShiftedELU shift alpha name \<Rightarrow> single shapes
      | Concatenate axis name \<Rightarrow> concatenate_shape axis shapes
      | SpatialPyramidPooling3D nb_bins_per_level name \<Rightarrow>
          Option.bind (single shapes) (spp3d_output_shape nb_bins_per_level)
      | Dropout rate name \<Rightarrow> single shapes)"

fun output_shape :: "tensor \<Rightarrow> dim list option" where
  "output_shape (Tensor l ts) =
     (case those (map output_shape ts) of
        None \<Rightarrow> None
      | Some shapes \<Rightarrow> compute_output_shape l shapes)"

text \<open>The layers on the path from the input to a tensor, for a graph without branches.\<close>

fun chain :: "tensor \<Rightarrow> layer list" where
  "chain (Tensor l [t]) = chain t @ [l]"
| "chain (Tensor l ts) = [l]"

text \<open>
  Observations on a graph: the layers a function stacks on the tensor it is given (what it
  adds to a leaf), and the filters and strides of the convolutions among some layers.
\<close>

definition stacked :: "(tensor \<Rightarrow> tensor) \<Rightarrow> layer list" where
  "stacked f = tl (chain (f (Tensor (Input [] []) [])))"

fun conv3d_spec :: "layer \<Rightarrow> (int \<times> triple) option" where
  "conv3d_spec (Conv3D filters kernel_size' strides padding' name) = Some (filters, strides)"
| "conv3d_spec l = None"

fun conv3dtranspose_spec :: "layer \<Rightarrow> (int \<times> triple) option" where
  "conv3dtranspose_spec (Conv3DTranspose filters kernel_size' strides padding' name) = Some (filters, strides)"
| "conv3dtranspose_spec l = None"

text \<open>A process in which the framework has created no layer yet and nothing has happened.\<close>

definition initial_world :: world where
  "initial_world = \<lparr>uids = (\<lambda>prefix. 0), log = []\<rparr>"

text \<open>
  Modelled from the spec: \<^verbatim>\<open>kdsb17.advanced_activations.ShiftedELU\<close> is not among the
  sources.  It is the "custom activation" of the variances: the exponential linear unit
  with slope \<open>alpha\<close> on the negative side, moved up by \<open>shift\<close>, here on the reals.
\<close>

definition ShiftedELU_call :: "real \<Rightarrow> real \<Rightarrow> real \<Rightarrow> real" where
  "ShiftedELU_call shift alpha x = (if x > 0 then x else alpha * (exp x - 1)) + shift"

subsection \<open>Arrays\<close>

text \<open>
  A numpy array: its \<^verbatim>\<open>dtype\<close> (by name), its \<^verbatim>\<open>shape\<close> and the item at each
  index (a list with one position per dimension).  Items of floating type are real numbers:
  rounding, infinities and NaN are not modelled.
\<close>

record 'a ndarray =
  dtype :: string
  shape :: "nat list"
  item :: "nat list \<Rightarrow> 'a"

definition ndim :: "'a ndarray \<Rightarrow> nat" where
  "ndim a = length (shape a)"

definition bind_err :: "error + 'a \<Rightarrow> ('a \<Rightarrow> error + 'b) \<Rightarrow> error + 'b" where
  "bind_err r f = (case r of Inl e \<Rightarrow> Inl e | Inr v \<Rightarrow> f v)"

text \<open>The bounds of the Python slice \<^verbatim>\<open>[start:stop]\<close> of a sequence of length \<open>n\<close>.\<close>

definition slice_bound :: "nat \<Rightarrow> int \<Rightarrow> nat" where
  "slice_bound n i = (if i < 0 then nat (max 0 (int n + i)) else min n (nat i))"

text \<open>
  \<^verbatim>\<open>np.split(ary, indices, axis=1)\<close> for a list of indices: the sub-arrays
  \<^verbatim>\<open>ary[:, st:end]\<close> between consecutive division points
  \<^verbatim>\<open>[0] + indices + [N]\<close>.
\<close>

definition slice_axis1 :: "'a ndarray \<Rightarrow> int \<Rightarrow> int \<Rightarrow> 'a ndarray" where
  "slice_axis1 ary st end' =
     (let n = shape ary ! 1;
          a = slice_bound n st;
          b = slice_bound n end'
      in ary\<lparr>shape := (shape ary)[1 := b - a],
              item := (\<lambda>idx. item ary (idx[1 := idx ! 1 + a]))\<rparr>)"

definition np_split_axis1 :: "'a ndarray \<Rightarrow> int list \<Rightarrow> error + 'a ndarray list" where
  "np_split_axis1 ary indices =
     (if ndim ary < 2 then Inl (IndexError ''tuple index out of range'')
      else (let div_points = [0] @ indices @ [int (shape ary ! 1)]
            in Inr (map (\<lambda>i. slice_axis1 ary (div_points ! i) (div_points ! Suc i))
                      [0..<Suc (length indices)])))"

text \<open>C-order position of an index in a shape, and back.\<close>

fun ravel :: "nat list \<Rightarrow> nat list \<Rightarrow> nat" where
  "ravel (d # ds) (i # idx) = i * prod_list ds + ravel ds idx"
| "ravel ds idx = 0"

fun unravel :: "nat list \<Rightarrow> nat \<Rightarrow> nat list" where
  "unravel [] n = []"
| "unravel (d # ds) n = (n div prod_list ds) # unravel ds (n mod prod_list ds)"

text \<open>
  \<^verbatim>\<open>np.reshape(a, newshape)\<close> where \<open>newshape\<close> may hold one \<open>-1\<close>, the dimension
  to infer.
\<close>

definition np_reshape :: "'a ndarray \<Rightarrow> int list \<Rightarrow> error + 'a ndarray" where
  "np_reshape a newshape =
     (let size = prod_list (shape a);
          known = prod_list (map nat (filter (\<lambda>d. d \<noteq> - 1) newshape));
          unknown = length (filter (\<lambda>d. d = - 1) newshape)
      in if list_ex (\<lambda>d. d < - 1) newshape then Inl (ValueError ''negative dimensions not allowed'')
         else if 1 < unknown then Inl (ValueError ''can only specify one unknown dimension'')
         else if unknown = 0 \<and> known \<noteq> size \<or> unknown = 1 \<and> (known = 0 \<or> size mod known \<noteq> 0)
           then Inl (ValueError ''cannot reshape array'')
         else (let shape' = map (\<lambda>d. if d = - 1 then size div known else nat d) newshape
               in Inr (a\<lparr>shape := shape',
                         item := (\<lambda>idx. item a (unravel (shape a) (ravel shape' idx)))\<rparr>)))"

text \<open>Broadcasting: shapes are aligned at their last dimension; a dimension of size 1 stretches.\<close>

fun broadcast_rev :: "nat list \<Rightarrow> nat list \<Rightarrow> nat list option" where
  "broadcast_rev [] ys = Some ys"
| "broadcast_rev xs [] = Some xs"
| "broadcast_rev (x # xs) (y # ys) =
     (if x = y \<or> y = 1 then map_option (Cons x) (broadcast_rev xs ys)
      else if x = 1 then map_option (Cons y) (broadcast_rev xs ys)
      else None)"

definition broadcast_shapes :: "nat list \<Rightarrow> nat list \<Rightarrow> nat list option" where
  "broadcast_shapes s t = map_option rev (broadcast_rev (rev s) (rev t))"

text \<open>The index into an array of shape \<open>s\<close> that an index of the broadcast result reads.\<close>

definition broadcast_index :: "nat list \<Rightarrow> nat list \<Rightarrow> nat list" where
  "broadcast_index s idx =
     map2 (\<lambda>d i. if d = 1 then 0 else i) s (drop (length idx - length s) idx)"

definition np_map :: "('a \<Rightarrow> 'b) \<Rightarrow> 'a ndarray \<Rightarrow> 'b ndarray" where
  "np_map f a = \<lparr>dtype = dtype a, shape = shape a, item = (\<lambda>idx. f (item a idx))\<rparr>"

definition np_divide :: "real ndarray \<Rightarrow> real ndarray \<Rightarrow> error + real ndarray" where
  "np_divide a b =
     (case broadcast_shapes (shape a) (shape b) of
        None \<Rightarrow> Inl (ValueError ''operands could not be broadcast together'')
      | Some s \<Rightarrow>
          Inr \<lparr>dtype = dtype a, shape = s,
               item = (\<lambda>idx. item a (broadcast_index (shape a) idx) /
                              item b (broadcast_index (shape b) idx))\<rparr>)"

text \<open>The position of the first greatest element of a list that is not empty.\<close>

fun argmax_from :: "real list \<Rightarrow> nat \<Rightarrow> nat \<Rightarrow> real \<Rightarrow> nat" where
  "argmax_from [] i best v = best"
| "argmax_from (x # xs) i best v =
     (if v < x then argmax_from xs (Suc i) i x else argmax_from xs (Suc i) best v)"

definition argmax_list :: "real list \<Rightarrow> nat" where
  "argmax_list xs = argmax_from (tl xs) 1 0 (hd xs)"

text \<open>\<^verbatim>\<open>a.argmax(axis=1)\<close>.\<close>

definition np_argmax_axis1 :: "real ndarray \<Rightarrow> error + nat ndarray" where
  "np_argmax_axis1 a =
     (if ndim a < 2 then Inl (ValueError ''axis 1 is out of bounds'')
      else if shape a ! 1 = 0 then Inl (ValueError ''attempt to get argmax of an empty sequence'')
      else Inr \<lparr>dtype = ''int64'', shape = hd (shape a) # drop 2 (shape a),
                item = (\<lambda>idx. argmax_list
                          (map (\<lambda>k. item a (hd idx # k # tl idx)) [0..<shape a ! 1]))\<rparr>)"

text \<open>\<^verbatim>\<open>np.indices(dimensions)\<close>: one array per dimension, holding that coordinate.\<close>

definition np_indices :: "nat list \<Rightarrow> nat ndarray list" where
  "np_indices dimensions =
     map (\<lambda>k. \<lparr>dtype = ''int64'', shape = dimensions, item = (\<lambda>idx. idx ! k)\<rparr>)
       [0..<length dimensions]"

fun all_indices :: "nat list \<Rightarrow> nat list list" where
  "all_indices [] = [[]]"
| "all_indices (d # ds) = concat (map (\<lambda>i. map (Cons i) (all_indices ds)) [0..<d])"

text \<open>
  \<^verbatim>\<open>a[i1, ..., in]\<close> with one integer array for every dimension of \<open>a\<close>: the index
  arrays are broadcast against each other, and the result has the broadcast shape.
\<close>

definition np_take :: "'a ndarray \<Rightarrow> nat ndarray list \<Rightarrow> error + 'a ndarray" where
  "np_take a ixs =
     (if length ixs \<noteq> ndim a then Inl (IndexError ''wrong number of indices for array'')
      else case fold (\<lambda>ix acc. Option.bind acc (broadcast_shapes (shape ix))) ixs (Some []) of
        None \<Rightarrow> Inl (IndexError ''shape mismatch: indexing arrays could not be broadcast together'')
      | Some s \<Rightarrow>
          (let pick = (\<lambda>idx. map (\<lambda>ix. item ix (broadcast_index (shape ix) idx)) ixs)
           in if list_ex (\<lambda>idx. list_ex (\<lambda>(i, d). d \<le> i) (zip (pick idx) (shape a))) (all_indices s)
              then Inl (IndexError ''index is out of bounds'')
              else Inr \<lparr>dtype = dtype a, shape = s, item = (\<lambda>idx. item a (pick idx))\<rparr>))"

text \<open>\<^verbatim>\<open>np.expand_dims(a, axis)\<close> for an axis that is not negative.\<close>

definition np_expand_dims :: "'a ndarray \<Rightarrow> nat \<Rightarrow> error + 'a ndarray" where
  "np_expand_dims a axis =
     (if ndim a < axis then Inl (ValueError ''axis is out of bounds'')
      else Inr (a\<lparr>shape := take axis (shape a) @ [1] @ drop axis (shape a),
                  item := (\<lambda>idx. item a (take axis idx @ drop (Suc axis) idx))\<rparr>))"

subsection \<open>Prediction\<close>

definition check_input_array :: "'a ndarray \<Rightarrow> error + unit" where
  "check_input_array x =
     (if dtype x \<noteq> ''float32'' then Inl (ValueError ''Input array must be of type float32.'')
      else if ndim x \<noteq> 5
        then Inl (ValueError ''Input array must have exactly 5 dimensions: (samples, z, y, z, channels)'')
      else if last (shape x) \<noteq> 1
        then Inl (ValueError ''Size of last dimension of input array must be exactly 1.'')
      else Inr ())"

text \<open>
  \<^verbatim>\<open>self._model.predict(x)\<close>.  \<open>kpredict\<close> is the framework's
  \<^verbatim>\<open>Model.predict\<close>: what it returns for a model and an array.  The call is entered
  in the log.
\<close>

definition model_predict ::
  "(kmodel \<Rightarrow> real ndarray \<Rightarrow> error + real ndarray) \<Rightarrow> 'a NakedModel_scheme \<Rightarrow>
   real ndarray \<Rightarrow> world \<Rightarrow> (error + real ndarray) \<times> world" where
  "model_predict kpredict self x w =
     (case model self of
        None \<Rightarrow> (Inl (AttributeError ''NoneType object has no attribute predict''), w)
      | Some m \<Rightarrow> (kpredict m x, emit (Call_predict m (shape x)) w))"

definition GaussianMixtureCAE_predict ::
  "(kmodel \<Rightarrow> real ndarray \<Rightarrow> error + real ndarray) \<Rightarrow> 'a GaussianMixtureCAE_scheme \<Rightarrow>
   real ndarray \<Rightarrow> world \<Rightarrow> (error + real ndarray) \<times> world" where
  "GaussianMixtureCAE_predict kpredict self array w =
     (case check_input_array array of
        Inl e \<Rightarrow> (Inl e, w)
      | Inr u \<Rightarrow>
          (case model_predict kpredict self array w of
             (Inl e, w1) \<Rightarrow> (Inl e, w1)
           | (Inr pred, w1) \<Rightarrow>
               (let m = n_gaussians self;
                    z = shape array ! 1; y = shape array ! 2; x = shape array ! 3;
                    splits = [m, 2 * m]
                in (bind_err (np_split_axis1 pred splits) (\<lambda>parts.
                      let log_prior = parts ! 0; sigma_sq = parts ! 1; mu = parts ! 2 in
                      bind_err (np_reshape mu [- 1, int z, int y, int x, m]) (\<lambda>mu.
                      bind_err (np_divide (np_map exp log_prior) (np_map sqrt sigma_sq)) (\<lambda>ratio.
                      bind_err (np_argmax_axis1 ratio) (\<lambda>which.
                      let ixs = np_indices (butlast (shape array)) in
                      bind_err (np_take mu (ixs @ [which])) (\<lambda>r.
                      np_expand_dims r 4))))), w1))))"

definition LungNet_predict ::
  "(kmodel \<Rightarrow> real ndarray \<Rightarrow> error + real ndarray) \<Rightarrow> 'a LungNet_scheme \<Rightarrow>
   real ndarray \<Rightarrow> world \<Rightarrow> (error + real ndarray) \<times> world" where
  "LungNet_predict kpredict self x w =
     (case check_input_array x of
        Inl e \<Rightarrow> (Inl e, w)
      | Inr u \<Rightarrow> model_predict kpredict self x w)"

text \<open>
  Two runs of \<^verbatim>\<open>GaussianMixtureCAE.predict\<close> on a batch of two samples, for
  \<^verbatim>\<open>GaussianMixtureCAE(n_gaussians=2, input_shape=(2, 2, 2), nb_filters_per_layer=(4,))\<close>.
  In the output of the model both samples have the variances 1 and the means 10 (first
  Gaussian) and 20 (second Gaussian) at every voxel; the priors are 3/4 and 1/4 for the
  first sample and 1/4 and 3/4 for the second.
\<close>

definition batch_model :: GaussianMixtureCAE where
  "batch_model = fst (snd (GaussianMixtureCAE_build_model
     (GaussianMixtureCAE_init 2 (2, 2, 2) [4] (3, 3, 3) Same False
        ''adam'' 10 ''/tmp/'' ''weights.hdf5'' 0) None initial_world))"

definition batch_output :: "nat \<Rightarrow> real ndarray" where
  "batch_output samples =
     \<lparr>dtype = ''float32'', shape = [samples, 20],
      item = (\<lambda>idx. if idx ! 1 = 0 then (if idx ! 0 = 0 then ln (3 / 4) else ln (1 / 4))
                     else if idx ! 1 = 1 then (if idx ! 0 = 0 then ln (1 / 4) else ln (3 / 4))
                     else if idx ! 1 < 4 then 1
                     else if even (idx ! 1) then 10 else 20)\<rparr>"

definition batch_input :: "nat list \<Rightarrow> real ndarray" where
  "batch_input shape' = \<lparr>dtype = ''float32'', shape = shape', item = (\<lambda>idx. 0)\<rparr>"

subsection \<open>Building a layer: its checks and its weights\<close>

text \<open>
  When a layer is called on a tensor the framework builds it: \<^verbatim>\<open>build(input_shape)\<close>
  creates the weights of the layer, whose shapes it reads from the shape of the input.
  Two of the dimensions it reads are not looked at by shape inference: the channels of a
  convolution and the axis of \<^verbatim>\<open>BatchNormalization\<close>.  \<^verbatim>\<open>build\<close> raises
  \<^verbatim>\<open>ValueError\<close> when such a dimension is open.  \<open>py_index\<close> is the indexing of a tuple,
  a negative index counting from the end; \<open>str_tuple\<close> is \<^verbatim>\<open>str\<close> of a shape.
\<close>

definition py_index :: "'a list \<Rightarrow> int \<Rightarrow> 'a option" where
  "py_index xs i =
     (let n = int (length xs); j = (if i < 0 then n + i else i)
      in if 0 \<le> j \<and> j < n then Some (xs ! nat j) else None)"

definition str_int :: "int \<Rightarrow> string" where
  "str_int i = (if i < 0 then ''-'' @ str_nat (nat (- i)) else str_nat (nat i))"

definition str_dim :: "dim \<Rightarrow> string" where
  "str_dim d = (case d of None \<Rightarrow> ''None'' | Some n \<Rightarrow> str_int n)"

fun join :: "string \<Rightarrow> string list \<Rightarrow> string" where
  "join sep [] = []"
| "join sep [s] = s"
| "join sep (s # t # ss) = s @ sep @ join sep (t # ss)"

definition str_tuple :: "dim list \<Rightarrow> string" where
  "str_tuple ds =
     (case ds of
        [d] \<Rightarrow> ''('' @ str_dim d @ '',)''
      | _ \<Rightarrow> ''('' @ join '', '' (map str_dim ds) @ '')'')"

definition conv_build :: "string \<Rightarrow> dim list \<Rightarrow> error + unit" where
  "conv_build name input_shape' =
     (if length input_shape' \<noteq> 5
      then Inl (ValueError (''Input 0 is incompatible with layer '' @ name @
                            '': expected ndim=5, found ndim='' @ str_nat (length input_shape')))
      else case py_index input_shape' (- 1) of
             Some (Some input_dim) \<Rightarrow> Inr ()
           | _ \<Rightarrow> Inl (ValueError
                ''The channel dimension of the inputs should be defined. Found `None`.''))"

definition batch_normalization_build :: "int \<Rightarrow> dim list \<Rightarrow> error + unit" where
  "batch_normalization_build axis input_shape' =
     (case py_index input_shape' axis of
        None \<Rightarrow> Inl (IndexError ''tuple index out of range'')
      | Some None \<Rightarrow>
          Inl (ValueError (''Axis '' @ str_int axis @
            '' of input tensor should have a defined dimension but the layer received an input with shape '' @
            str_tuple input_shape' @ ''.''))
      | Some (Some dim') \<Rightarrow> Inr ())"

definition layer_build :: "layer \<Rightarrow> dim list list \<Rightarrow> error + unit" where
  "layer_build l shapes =
     (case single shapes of
        None \<Rightarrow> Inr ()
      | Some input_shape' \<Rightarrow>
          (case l of
             Conv3D filters kernel_size' strides padding' name \<Rightarrow> conv_build name input_shape'
           | Conv3DTranspose filters kernel_size' strides padding' name \<Rightarrow> conv_build name input_shape'
           | BatchNormalization mode axis name \<Rightarrow> batch_normalization_build axis input_shape'
           | _ \<Rightarrow> Inr ()))"

text \<open>
  The calls of the layers that make a tensor, in the order in which the module makes them
  along a path from the input: the first exception of a \<^verbatim>\<open>build\<close>, if there is one.
  It ends \<^verbatim>\<open>_build_layers\<close>, and with it \<^verbatim>\<open>build_model\<close>, at that call.  The
  definitions of \<^verbatim>\<open>_build_layers\<close> above give the graph that the calls of the module
  describe; whether the framework accepts these calls is told by \<open>output_shape\<close> and
  by \<open>call_layers\<close>.
\<close>

fun first_raised :: "(error + unit) list \<Rightarrow> error + unit" where
  "first_raised [] = Inr ()"
| "first_raised (Inl e # rs) = Inl e"
| "first_raised (Inr u # rs) = first_raised rs"

fun call_layers :: "tensor \<Rightarrow> error + unit" where
  "call_layers (Tensor l ts) =
     (case first_raised (map call_layers ts) of
        Inl e \<Rightarrow> Inl e
      | Inr u \<Rightarrow>
          (case those (map output_shape ts) of
             None \<Rightarrow> Inr ()
           | Some shapes \<Rightarrow> layer_build l shapes))"











section \<open>Properties\<close>

subsection \<open>Training\<close>

text \<open>
  C9.  Every run of \<^verbatim>\<open>fit_generator\<close> first creates the directory
  \<^verbatim>\<open>model_path\<close>, and then, when the object holds a model, calls the framework's
  \<^verbatim>\<open>fit_generator\<close> once, with exactly six callbacks in this order: a
  \<^verbatim>\<open>ModelCheckpoint\<close> on \<^verbatim>\<open>val_loss\<close> that saves the best model only and
  its weights only, an \<^verbatim>\<open>EarlyStopping\<close> on \<^verbatim>\<open>val_loss\<close> with
  \<^verbatim>\<open>min_delta\<close> 0 and the patience given at construction, a \<^verbatim>\<open>CSVLogger\<close>
  on \<^verbatim>\<open>epoch_log.csv\<close>, a \<^verbatim>\<open>BatchLossCSVLogger\<close> on
  \<^verbatim>\<open>batch_log.csv\<close>, a \<^verbatim>\<open>TensorBoard\<close> under
  \<^verbatim>\<open>model_path/tensorboard\<close> and a \<^verbatim>\<open>TerminateOnNaN\<close>.
\<close>

theorem fit_generator_callbacks:
  "log (snd (fit_generator kfit self tg spe ep vg vs w)) =
     log w @ Makedir (model_path self) #
       (case model self of
          None \<Rightarrow> []
        | Some m \<Rightarrow> [Call_fit_generator m
             \<lparr>generator = tg, steps_per_epoch = spe, epochs = ep,
              callbacks =
                [ModelCheckpoint (os_path_join (model_path self) (weights_name_format self))
                   ''val_loss'' True True,
                 EarlyStopping ''val_loss'' 0 (es_patience self),
                 CSVLogger (os_path_join (model_path self) ''epoch_log.csv''),
                 BatchLossCSVLogger (os_path_join (model_path self) ''batch_log.csv''),
                 TensorBoard (os_path_join (model_path self) ''tensorboard'')
                   (histogram_freq self) (histogram_freq self > 0),
                 TerminateOnNaN],
              validation_data = vg, validation_steps = vs\<rparr>])"
  by (simp add: fit_generator_def build_callbacks_def emit_def Let_def split: option.splits)

theorem fit_generator_callbacks_witness:
  "log (snd (fit_generator (\<lambda>m c. Inr (0::nat))
        ((NakedModel_init ''adam'' 10 ''/tmp/'' ''weights.hdf5'' 0)
           \<lparr>model := Some \<lparr>inputs = Tensor (Input [Some 1] ''input_1'') [],
                           outputs = Tensor (Input [Some 1] ''input_1'') [],
                           layers = [], compiled = None\<rparr>\<rparr>)
        (Generator 0) 100 5 (Generator 1) 10 \<lparr>uids = (\<lambda>p. 0), log = []\<rparr>)) =
     [Makedir ''/tmp/'',
      Call_fit_generator
        \<lparr>inputs = Tensor (Input [Some 1] ''input_1'') [],
         outputs = Tensor (Input [Some 1] ''input_1'') [],
         layers = [], compiled = None\<rparr>
        \<lparr>generator = Generator 0, steps_per_epoch = 100, epochs = 5,
         callbacks =
           [ModelCheckpoint ''/tmp/weights.hdf5'' ''val_loss'' True True,
            EarlyStopping ''val_loss'' 0 10,
            CSVLogger ''/tmp/epoch_log.csv'',
            BatchLossCSVLogger ''/tmp/batch_log.csv'',
            TensorBoard ''/tmp/tensorboard'' 0 False,
            TerminateOnNaN],
         validation_data = Generator 1, validation_steps = 10\<rparr>]"
  using fit_generator_callbacks [of "\<lambda>m c. Inr (0::nat)"
        "(NakedModel_init ''adam'' 10 ''/tmp/'' ''weights.hdf5'' 0)
           \<lparr>model := Some \<lparr>inputs = Tensor (Input [Some 1] ''input_1'') [],
                           outputs = Tensor (Input [Some 1] ''input_1'') [],
                           layers = [], compiled = None\<rparr>\<rparr>"
        "Generator 0" 100 5 "Generator 1" 10 "\<lparr>uids = (\<lambda>p. 0), log = []\<rparr>"]
  by (simp add: NakedModel_init_def os_path_join_def)

subsection \<open>Shapes of the encoder and the decoder\<close>

lemma output_shape_unary:
  "output_shape (Tensor l [t]) = Option.bind (output_shape t) (\<lambda>s. compute_output_shape l [s])"
  by (cases "output_shape t") simp_all

lemma custom_conv3d_shape:
  assumes "output_shape t = Some [b, d1, d2, d3, c]"
  shows "output_shape (custom_conv3d self t f (s1, s2, s3) name) =
           (case kernel_size self of (k1, k2, k3) \<Rightarrow>
              Some [b, conv_output_length d1 k1 (padding self) s1,
                    conv_output_length d2 k2 (padding self) s2,
                    conv_output_length d3 k3 (padding self) s3, Some f])"
  using assms
  by (cases "kernel_size self")
     (simp add: custom_conv3d_def Let_def compute_output_shape_def single_def
                conv3d_output_shape_def)

lemma custom_conv3dtranspose_shape:
  assumes "output_shape t = Some [b, d1, d2, d3, c]"
  shows "output_shape (custom_conv3dtranspose self t f (s1, s2, s3) name) =
           (case kernel_size self of (k1, k2, k3) \<Rightarrow>
              Some [b, deconv_length d1 s1 k1 (padding self),
                    deconv_length d2 s2 k2 (padding self),
                    deconv_length d3 s3 k3 (padding self), Some f])"
  using assms
  by (cases "kernel_size self")
     (simp add: custom_conv3dtranspose_def Let_def compute_output_shape_def single_def
                conv3dtranspose_output_shape_def)

lemma conv_same_1: "conv_output_length (Some n) k Same 1 = Some n"
  by (simp add: conv_output_length_def)

lemma conv_same_2: "2 dvd n \<Longrightarrow> conv_output_length (Some n) k Same 2 = Some (n div 2)"
  by (auto simp: conv_output_length_def elim!: dvdE)

lemma conv_None: "conv_output_length None k p s = None"
  by (simp add: conv_output_length_def)

lemma deconv_same: "deconv_length (Some n) s k Same = Some (n * s)"
  by (simp add: deconv_length_def)

lemma encoder_block_shape_same:
  assumes "padding self = Same" "output_shape t = Some [b, Some z, Some y, Some x, c]"
    "2 dvd z" "2 dvd y" "2 dvd x"
  shows "output_shape (encoder_block self (i, f) t) =
           Some [b, Some (z div 2), Some (y div 2), Some (x div 2), Some f]"
proof -
  obtain k1 k2 k3 where k: "kernel_size self = (k1, k2, k3)" by (cases "kernel_size self")
  have 1: "output_shape (custom_conv3d self t f (1, 1, 1) (''1-2_'' @ str_nat i)) =
        Some [b, Some z, Some y, Some x, Some f]"
    using custom_conv3d_shape [OF assms(2), of self f 1 1 1] assms(1) k
    by (simp add: conv_same_1)
  show ?thesis
    using custom_conv3d_shape [OF 1, of self f 2 2 2] assms k
    by (simp add: encoder_block_def Let_def conv_same_2)
qed

lemma encoder_fold_shape_same:
  assumes "padding self = Same"
  shows "output_shape t = Some [b, Some z, Some y, Some x, c] \<Longrightarrow>
         2 ^ length fs dvd z \<Longrightarrow> 2 ^ length fs dvd y \<Longrightarrow> 2 ^ length fs dvd x \<Longrightarrow>
         output_shape (fold (encoder_block self) (enumerate k fs) t) =
           Some [b, Some (z div 2 ^ length fs), Some (y div 2 ^ length fs),
                 Some (x div 2 ^ length fs), last (c # map Some fs)]"
proof (induction fs arbitrary: k t z y x c)
  case Nil
  then show ?case by simp
next
  case (Cons f fs)
  have d: "2 dvd z" "2 dvd y" "2 dvd x"
    using Cons.prems by (auto dest: dvd_mult_left)
  have e: "2 ^ length fs dvd z div 2" "2 ^ length fs dvd y div 2" "2 ^ length fs dvd x div 2"
    using Cons.prems d by (auto elim!: dvdE)
  have s: "output_shape (encoder_block self (k, f) t) =
        Some [b, Some (z div 2), Some (y div 2), Some (x div 2), Some f]"
    by (rule encoder_block_shape_same [OF assms Cons.prems(1) d])
  show ?case
    using Cons.IH [OF s e, of "Suc k"]
    by (simp add: zdiv_zmult2_eq)
qed

lemma decoder_block_shape_same:
  assumes "padding self = Same" "output_shape t = Some [b, Some z, Some y, Some x, c]"
  shows "output_shape (decoder_block self (i, f) t) =
           Some [b, Some (z * 2), Some (y * 2), Some (x * 2), Some f]"
proof -
  obtain k1 k2 k3 where k: "kernel_size self = (k1, k2, k3)" by (cases "kernel_size self")
  have 1: "output_shape (custom_conv3dtranspose self t f (2, 2, 2) (''2-1_'' @ str_nat i)) =
        Some [b, Some (z * 2), Some (y * 2), Some (x * 2), Some f]"
    using custom_conv3dtranspose_shape [OF assms(2), of self f 2 2 2] assms(1) k
    by (simp add: deconv_same)
  show ?thesis
    using custom_conv3dtranspose_shape [OF 1, of self f 1 1 1] assms k
    by (simp add: decoder_block_def Let_def deconv_same)
qed

lemma decoder_fold_shape_same:
  assumes "padding self = Same"
  shows "output_shape t = Some [b, Some z, Some y, Some x, c] \<Longrightarrow>
         output_shape (fold (decoder_block self) (enumerate k fs) t) =
           Some [b, Some (z * 2 ^ length fs), Some (y * 2 ^ length fs),
                 Some (x * 2 ^ length fs), last (c # map Some fs)]"
proof (induction fs arbitrary: k t z y x c)
  case Nil
  then show ?case by simp
next
  case (Cons f fs)
  have s: "output_shape (decoder_block self (k, f) t) =
        Some [b, Some (z * 2), Some (y * 2), Some (x * 2), Some f]"
    by (rule decoder_block_shape_same [OF assms Cons.prems(1)])
  show ?case
    using Cons.IH [OF s, of "Suc k"]
    by (simp add: mult.assoc)
qed

subsection \<open>The layers of the encoder and the decoder\<close>

lemma chain_custom_conv3d:
  "chain (custom_conv3d self t f s name) =
     chain t @ stacked (\<lambda>t. custom_conv3d self t f s name)"
  by (simp add: custom_conv3d_def stacked_def Let_def)

lemma chain_custom_conv3dtranspose:
  "chain (custom_conv3dtranspose self t f s name) =
     chain t @ stacked (\<lambda>t. custom_conv3dtranspose self t f s name)"
  by (simp add: custom_conv3dtranspose_def stacked_def Let_def)

lemma chain_nonempty: "chain t \<noteq> []"
  by (induction t rule: chain.induct) simp_all

lemma chain_encoder_block:
  "chain (encoder_block self p t) = chain t @ stacked (encoder_block self p)"
proof -
  obtain i f where p: "p = (i, f)" by (cases p)
  have "chain (encoder_block self (i, f) u) =
      chain u @ stacked (\<lambda>t. custom_conv3d self t f (1, 1, 1) (''1-2_'' @ str_nat i))
              @ stacked (\<lambda>t. custom_conv3d self t f (2, 2, 2) (''2-1_'' @ str_nat i))" for u
    unfolding encoder_block_def by (simp only: prod.case Let_def chain_custom_conv3d append_assoc)
  then show ?thesis
    unfolding p stacked_def [of "encoder_block self (i, f)"] by (simp add: chain_nonempty)
qed

lemma chain_decoder_block:
  "chain (decoder_block self p t) = chain t @ stacked (decoder_block self p)"
proof -
  obtain i f where p: "p = (i, f)" by (cases p)
  have "chain (decoder_block self (i, f) u) =
      chain u @ stacked (\<lambda>t. custom_conv3dtranspose self t f (2, 2, 2) (''2-1_'' @ str_nat i))
              @ stacked (\<lambda>t. custom_conv3dtranspose self t f (1, 1, 1) (''1-2_'' @ str_nat i))" for u
    unfolding decoder_block_def
    by (simp only: prod.case Let_def chain_custom_conv3dtranspose append_assoc)
  then show ?thesis
    unfolding p stacked_def [of "decoder_block self (i, f)"] by (simp add: chain_nonempty)
qed

lemma chain_fold:
  assumes "\<And>p t. chain (g p t) = chain t @ stacked (g p)"
  shows "chain (fold g ps t) = chain t @ concat (map (\<lambda>p. stacked (g p)) ps)"
  by (induction ps arbitrary: t) (simp_all add: assms)

lemma stacked_fold:
  assumes "\<And>p t. chain (g p t) = chain t @ stacked (g p)"
  shows "stacked (fold g ps) = concat (map (\<lambda>p. stacked (g p)) ps)"
  by (simp add: stacked_def chain_fold [OF assms])


lemma chain_build_decoder_layers:
  "chain (build_decoder_layers self t) = chain t @ stacked (build_decoder_layers self)"
  unfolding build_decoder_layers_def [abs_def]
  by (simp add: chain_fold [of "decoder_block self", OF chain_decoder_block]
      stacked_fold [of "decoder_block self", OF chain_decoder_block])

lemma stacked_encoder_block:
  "stacked (encoder_block self (i, f)) =
     stacked (\<lambda>t. custom_conv3d self t f (1, 1, 1) (''1-2_'' @ str_nat i)) @
     stacked (\<lambda>t. custom_conv3d self t f (2, 2, 2) (''2-1_'' @ str_nat i))"
proof -
  have "chain (encoder_block self (i, f) u) =
      chain u @ stacked (\<lambda>t. custom_conv3d self t f (1, 1, 1) (''1-2_'' @ str_nat i))
              @ stacked (\<lambda>t. custom_conv3d self t f (2, 2, 2) (''2-1_'' @ str_nat i))" for u
    unfolding encoder_block_def by (simp only: prod.case Let_def chain_custom_conv3d append_assoc)
  then show ?thesis
    by (simp add: stacked_def [of "encoder_block self (i, f)"] chain_nonempty)
qed

lemma stacked_decoder_block:
  "stacked (decoder_block self (i, f)) =
     stacked (\<lambda>t. custom_conv3dtranspose self t f (2, 2, 2) (''2-1_'' @ str_nat i)) @
     stacked (\<lambda>t. custom_conv3dtranspose self t f (1, 1, 1) (''1-2_'' @ str_nat i))"
proof -
  have "chain (decoder_block self (i, f) u) =
      chain u @ stacked (\<lambda>t. custom_conv3dtranspose self t f (2, 2, 2) (''2-1_'' @ str_nat i))
              @ stacked (\<lambda>t. custom_conv3dtranspose self t f (1, 1, 1) (''1-2_'' @ str_nat i))" for u
    unfolding decoder_block_def
    by (simp only: prod.case Let_def chain_custom_conv3dtranspose append_assoc)
  then show ?thesis
    by (simp add: stacked_def [of "decoder_block self (i, f)"] chain_nonempty)
qed

lemma stacked_custom_conv3d:
  "stacked (\<lambda>t. custom_conv3d self t f s name) =
     Conv3D f (kernel_size self) s (padding self) (''encoder_conv_'' @ name) #
     (if batch_normalization self then [BatchNormalization 0 1 (''encoder_bn_'' @ name)] else []) @
     [Activation ''relu'' (''encoder_act_'' @ name)]"
  by (simp add: stacked_def custom_conv3d_def Let_def)

lemma stacked_custom_conv3dtranspose:
  "stacked (\<lambda>t. custom_conv3dtranspose self t f s name) =
     Conv3DTranspose f (kernel_size self) s (padding self) (''decoder_conv_'' @ name) #
     (if batch_normalization self then [BatchNormalization 0 1 (''decoder_bn_'' @ name)] else []) @
     [Activation ''relu'' (''decoder_act_'' @ name)]"
  by (simp add: stacked_def custom_conv3dtranspose_def Let_def)

lemma stacked_build_encoder_layers:
  "stacked (build_encoder_layers self) =
     concat (map (\<lambda>p. stacked (encoder_block self p)) (enumerate 0 (nb_filters_per_layer self)))"
  unfolding build_encoder_layers_def [abs_def]
  by (rule stacked_fold [of "encoder_block self", OF chain_encoder_block])

lemma stacked_build_decoder_layers:
  "stacked (build_decoder_layers self) =
     concat (map (\<lambda>p. stacked (decoder_block self p)) (enumerate 0 (rev (nb_filters_per_layer self))))"
  unfolding build_decoder_layers_def [abs_def]
  by (rule stacked_fold [of "decoder_block self", OF chain_decoder_block])

lemma map_filter_append: "List.map_filter g (xs @ ys) = List.map_filter g xs @ List.map_filter g ys"
  by (simp add: List.map_filter_def)

lemma map_filter_concat: "List.map_filter g (concat xss) = concat (map (List.map_filter g) xss)"
  by (induction xss) (simp_all add: map_filter_append List.map_filter_simps)

lemma concat_map_enumerate:
  "concat (map (\<lambda>p. h (snd p)) (enumerate k fs)) = concat (map h fs)"
  by (induction fs arbitrary: k) simp_all

lemma conv3d_specs_encoder_block:
  "List.map_filter conv3d_spec (stacked (encoder_block self p)) =
     [(snd p, (1, 1, 1)), (snd p, (2, 2, 2))]"
  by (cases p)
     (simp add: stacked_encoder_block stacked_custom_conv3d map_filter_append List.map_filter_simps)

lemma conv3dtranspose_specs_decoder_block:
  "List.map_filter conv3dtranspose_spec (stacked (decoder_block self p)) =
     [(snd p, (2, 2, 2)), (snd p, (1, 1, 1))]"
  by (cases p)
     (simp add: stacked_decoder_block stacked_custom_conv3dtranspose map_filter_append
        List.map_filter_simps)

lemma conv3d_specs_encoder:
  "List.map_filter conv3d_spec (stacked (build_encoder_layers self)) =
     concat (map (\<lambda>f. [(f, (1, 1, 1)), (f, (2, 2, 2))]) (nb_filters_per_layer self))"
  by (simp add: stacked_build_encoder_layers map_filter_concat comp_def
      conv3d_specs_encoder_block concat_map_enumerate [of "\<lambda>f. [(f, (1, 1, 1)), (f, (2, 2, 2))]"])

lemma conv3dtranspose_specs_decoder:
  "List.map_filter conv3dtranspose_spec (stacked (build_decoder_layers self)) =
     concat (map (\<lambda>f. [(f, (2, 2, 2)), (f, (1, 1, 1))]) (rev (nb_filters_per_layer self)))"
  by (simp add: stacked_build_decoder_layers map_filter_concat comp_def
      conv3dtranspose_specs_decoder_block
      concat_map_enumerate [of "\<lambda>f. [(f, (2, 2, 2)), (f, (1, 1, 1))]"])

subsection \<open>The autoencoder\<close>

lemma input_shape_known:
  "output_shape (Tensor (Input [Some z, Some y, Some x, Some 1] name) []) =
     Some [None, Some z, Some y, Some x, Some 1]"
  by (simp add: compute_output_shape_def)

lemma autoencoder_shape_same:
  assumes "padding self = Same"
    and "2 ^ length (nb_filters_per_layer self) dvd z"
    and "2 ^ length (nb_filters_per_layer self) dvd y"
    and "2 ^ length (nb_filters_per_layer self) dvd x"
  shows "output_shape (build_decoder_layers self (build_encoder_layers self
           (Tensor (Input [Some z, Some y, Some x, Some 1] name) []))) =
         Some [None, Some z, Some y, Some x,
               Some (if nb_filters_per_layer self = [] then 1 else hd (nb_filters_per_layer self))]"
proof -
  let ?fs = "nb_filters_per_layer self"
  let ?n = "length ?fs"
  have e: "output_shape (build_encoder_layers self
             (Tensor (Input [Some z, Some y, Some x, Some 1] name) [])) =
           Some [None, Some (z div 2 ^ ?n), Some (y div 2 ^ ?n), Some (x div 2 ^ ?n),
                 last (Some 1 # map Some ?fs)]"
    unfolding build_encoder_layers_def
    by (rule encoder_fold_shape_same [OF assms(1) input_shape_known assms(2-4)])
  have d: "output_shape (build_decoder_layers self (build_encoder_layers self
             (Tensor (Input [Some z, Some y, Some x, Some 1] name) []))) =
           Some [None, Some (z div 2 ^ ?n * 2 ^ length (rev ?fs)),
                 Some (y div 2 ^ ?n * 2 ^ length (rev ?fs)),
                 Some (x div 2 ^ ?n * 2 ^ length (rev ?fs)),
                 last (last (Some 1 # map Some ?fs) # map Some (rev ?fs))]"
    unfolding build_decoder_layers_def
    by (rule decoder_fold_shape_same [OF assms(1) e])
  have c: "last (last (Some 1 # map Some ?fs) # map Some (rev ?fs)) =
           Some (if ?fs = [] then 1 else hd ?fs)"
    by (cases ?fs) (simp_all add: last_map)
  show ?thesis
    unfolding d c using assms(2-4) by simp
qed

text \<open>
  C7.  With \<open>n\<close> the number of entries of \<^verbatim>\<open>nb_filters_per_layer\<close>, the encoder
  holds exactly \<open>2 * n\<close> convolutions, two per block with the filters of the block, the
  first of stride \<open>(1, 1, 1)\<close> and the second of stride \<open>(2, 2, 2)\<close>; the decoder
  takes the same filters in reverse order, with one transposed convolution of stride
  \<open>(2, 2, 2)\<close> and one of stride \<open>(1, 1, 1)\<close> per block.  With padding
  \<^verbatim>\<open>'same'\<close> and every spatial dimension of the input divisible by \<open>2 ^ n\<close>, the
  output of the decoder has the spatial shape \<open>(z, y, x)\<close> of the input, whose product
  is the number of output dimensions \<open>c\<close> the loss is built with.
\<close>

theorem decoder_restores_input_shape:
  fixes self :: "'a Encoder_scheme"
  assumes "padding self = Same"
    and "2 ^ length (nb_filters_per_layer self) dvd z"
    and "2 ^ length (nb_filters_per_layer self) dvd y"
    and "2 ^ length (nb_filters_per_layer self) dvd x"
  shows "List.map_filter conv3d_spec (stacked (build_encoder_layers self)) =
           concat (map (\<lambda>f. [(f, (1, 1, 1)), (f, (2, 2, 2))]) (nb_filters_per_layer self)) \<and>
         length (List.map_filter conv3d_spec (stacked (build_encoder_layers self))) =
           2 * length (nb_filters_per_layer self) \<and>
         List.map_filter conv3dtranspose_spec (stacked (build_decoder_layers self)) =
           concat (map (\<lambda>f. [(f, (2, 2, 2)), (f, (1, 1, 1))]) (rev (nb_filters_per_layer self))) \<and>
         output_shape (build_decoder_layers self (build_encoder_layers self
           (Tensor (Input [Some z, Some y, Some x, Some 1] name) []))) =
           Some [None, Some z, Some y, Some x,
                 Some (if nb_filters_per_layer self = [] then 1 else hd (nb_filters_per_layer self))] \<and>
         loss (GaussianMixtureCAE_init m (z, y, x) (nb_filters_per_layer self) (kernel_size self)
                 (padding self) (batch_normalization self) opt pat path fmt hf) =
           Some (build_gmd_log_likelihood (z * y * x) m)"
proof -
  have l: "length (concat (map (\<lambda>f. [(f, (1::int, 1::int, 1::int)), (f, (2, 2, 2))]) fs)) = 2 * length fs"
    for fs :: "int list"
    by (induction fs) simp_all
  show ?thesis
    by (simp add: conv3d_specs_encoder conv3dtranspose_specs_decoder l
        autoencoder_shape_same [OF assms] GaussianMixtureCAE_init_def)
qed

theorem decoder_restores_input_shape_witness:
  "padding (GaussianMixtureCAE_init 2 (8, 16, 24) [64, 128, 256] (3, 3, 3) Same False
              ''adam'' 10 ''/tmp/'' ''w.hdf5'' 0) = Same \<and>
   (2::int) ^ length [64, 128, 256 :: int] dvd 8 \<and>
   (2::int) ^ length [64, 128, 256 :: int] dvd 16 \<and>
   (2::int) ^ length [64, 128, 256 :: int] dvd 24 \<and>
   List.map_filter conv3d_spec (stacked (build_encoder_layers
     (GaussianMixtureCAE_init 2 (8, 16, 24) [64, 128, 256] (3, 3, 3) Same False
        ''adam'' 10 ''/tmp/'' ''w.hdf5'' 0))) =
     [(64, (1, 1, 1)), (64, (2, 2, 2)), (128, (1, 1, 1)), (128, (2, 2, 2)),
      (256, (1, 1, 1)), (256, (2, 2, 2))] \<and>
   List.map_filter conv3dtranspose_spec (stacked (build_decoder_layers
     (GaussianMixtureCAE_init 2 (8, 16, 24) [64, 128, 256] (3, 3, 3) Same False
        ''adam'' 10 ''/tmp/'' ''w.hdf5'' 0))) =
     [(256, (2, 2, 2)), (256, (1, 1, 1)), (128, (2, 2, 2)), (128, (1, 1, 1)),
      (64, (2, 2, 2)), (64, (1, 1, 1))] \<and>
   output_shape (build_decoder_layers
     (GaussianMixtureCAE_init 2 (8, 16, 24) [64, 128, 256] (3, 3, 3) Same False
        ''adam'' 10 ''/tmp/'' ''w.hdf5'' 0)
     (build_encoder_layers
        (GaussianMixtureCAE_init 2 (8, 16, 24) [64, 128, 256] (3, 3, 3) Same False
           ''adam'' 10 ''/tmp/'' ''w.hdf5'' 0)
        (Tensor (Input [Some 8, Some 16, Some 24, Some 1] ''input_1'') []))) =
     Some [None, Some 8, Some 16, Some 24, Some 64]"
  using decoder_restores_input_shape
    [of "GaussianMixtureCAE_init 2 (8, 16, 24) [64, 128, 256] (3, 3, 3) Same False
           ''adam'' 10 ''/tmp/'' ''w.hdf5'' 0" 8 16 24 "''input_1''"]
  by (simp add: GaussianMixtureCAE_init_def)

subsection \<open>The output of GaussianMixtureCAE\<close>

lemma gmd_head_shapes:
  assumes e: "output_shape encoded = Some [None, Some ze, Some ye, Some xe, ce]"
    and d: "output_shape decoded = Some [None, Some z, Some y, Some x, cd]"
    and nz: "ze \<noteq> 0" "ye \<noteq> 0" "xe \<noteq> 0" "z \<noteq> 0" "y \<noteq> 0" "x \<noteq> 0"
    and m: "n_gaussians self \<noteq> 0"
    and dn: "n_dense_log_prior self \<noteq> 0" "n_dense_sigma_sq self \<noteq> 0"
  shows "\<exists>lp ss.
     build_gmd_layers self encoded decoded =
       Tensor (Concatenate (- 1) ''gmd'')
         [Tensor (Dense (n_gaussians self) (Some log_softmax) ''log_prior'') [lp],
          Tensor (ShiftedELU 1 1 ''sigma_sq'') [ss],
          Tensor (Flatten ''mu'')
            [Tensor (Conv3D (n_gaussians self) (kernel_size self) (1, 1, 1) Same ''mu_conv3d'')
               [decoded]]] \<and>
     output_shape (Tensor (Dense (n_gaussians self) (Some log_softmax) ''log_prior'') [lp]) =
       Some [None, Some (n_gaussians self)] \<and>
     output_shape (Tensor (ShiftedELU 1 1 ''sigma_sq'') [ss]) = Some [None, Some (n_gaussians self)] \<and>
     output_shape (Tensor (Flatten ''mu'')
            [Tensor (Conv3D (n_gaussians self) (kernel_size self) (1, 1, 1) Same ''mu_conv3d'')
               [decoded]]) = Some [None, Some (z * y * x * n_gaussians self)] \<and>
     output_shape (build_gmd_layers self encoded decoded) =
       Some [None, Some (2 * n_gaussians self + z * y * x * n_gaussians self)]"
proof -
  obtain k1 k2 k3 where k: "kernel_size self = (k1, k2, k3)" by (cases "kernel_size self")
  show ?thesis
    using assms
    by (simp add: build_gmd_layers_def Let_def k compute_output_shape_def single_def
        conv3d_output_shape_def flatten_output_shape_def dense_output_shape_def
        concatenate_shape_def truthy_def conv_same_1)
qed

lemma freeze_layers_frame:
  "freeze_layers names m w = (r, m', w') \<Longrightarrow>
     inputs m' = inputs m \<and> outputs m' = outputs m \<and> compiled m' = compiled m"
proof (induction names arbitrary: m w)
  case Nil
  then show ?case by simp
next
  case (Cons a names)
  then show ?case
    by (cases "get_layer m a") (auto simp: Let_def)
qed

lemma keras_Model_frame:
  "keras_Model i out = Inr m \<Longrightarrow> i = Some (inputs m) \<and> out = Some (outputs m) \<and> compiled m = None"
  by (auto simp: keras_Model_def Let_def split: option.splits if_splits)

lemma build_model_graph:
  assumes bl: "build_layers' self w = (self1, w1)"
    and cm: "\<And>s. input_layer (compile_model' s) = input_layer s \<and>
                  output_layer (compile_model' s) = output_layer s \<and>
                  map_option inputs (model (compile_model' s)) = map_option inputs (model s) \<and>
                  map_option outputs (model (compile_model' s)) = map_option outputs (model s)"
    and bm: "build_model build_layers' compile_model' self freeze w = (r, self', w')"
  shows "input_layer self' = input_layer self1 \<and> output_layer self' = output_layer self1 \<and>
         (r = Inr () \<longrightarrow> map_option inputs (model self') = input_layer self1 \<and>
                          map_option outputs (model self') = output_layer self1)"
proof (cases "keras_Model (input_layer self1) (output_layer self1)")
  case (Inl e)
  then show ?thesis using bl bm by (auto simp: build_model_def)
next
  case (Inr m)
  note km = keras_Model_frame [OF Inr]
  obtain r1 m1 w2 where f: "(case freeze of None \<Rightarrow> (Inr (), m, w1)
                              | Some names \<Rightarrow> freeze_layers names m w1) = (r1, m1, w2)"
    by (metis prod_cases3)
  have fr: "inputs m1 = inputs m \<and> outputs m1 = outputs m"
    using f freeze_layers_frame by (cases freeze) auto
  show ?thesis
    using bl bm Inr f fr km cm [of "self1\<lparr>model := Some m1\<rparr>"]
    by (cases r1) (auto simp: build_model_def)
qed

lemma compile_model_frame:
  "input_layer (compile_model s) = input_layer s \<and>
   output_layer (compile_model s) = output_layer s \<and>
   map_option inputs (model (compile_model s)) = map_option inputs (model s) \<and>
   map_option outputs (model (compile_model s)) = map_option outputs (model s)"
  by (cases "model s") (simp_all add: compile_model_def)

lemma GaussianMixtureCAE_build_layers_graph:
  assumes "input_shape self = (z, y, x)"
  shows "input_layer (fst (GaussianMixtureCAE_build_layers self w)) =
           Some (Tensor (Input [Some z, Some y, Some x, Some 1] (fst (auto_name ''input'' w))) []) \<and>
         output_layer (fst (GaussianMixtureCAE_build_layers self w)) =
           Some (build_gmd_layers self
             (build_encoder_layers self
                (Tensor (Input [Some z, Some y, Some x, Some 1] (fst (auto_name ''input'' w))) []))
             (build_decoder_layers self (build_encoder_layers self
                (Tensor (Input [Some z, Some y, Some x, Some 1] (fst (auto_name ''input'' w))) []))))"
  using assms
  by (cases "auto_name ''input'' w") (simp add: GaussianMixtureCAE_build_layers_def Let_def)

lemma encoder_shape_same:
  assumes "padding self = Same"
    and "2 ^ length (nb_filters_per_layer self) dvd z"
    and "2 ^ length (nb_filters_per_layer self) dvd y"
    and "2 ^ length (nb_filters_per_layer self) dvd x"
  shows "output_shape (build_encoder_layers self
           (Tensor (Input [Some z, Some y, Some x, Some 1] name) [])) =
         Some [None, Some (z div 2 ^ length (nb_filters_per_layer self)),
               Some (y div 2 ^ length (nb_filters_per_layer self)),
               Some (x div 2 ^ length (nb_filters_per_layer self)),
               last (Some 1 # map Some (nb_filters_per_layer self))]"
  unfolding build_encoder_layers_def
  by (rule encoder_fold_shape_same [OF assms(1) input_shape_known assms(2-4)])

lemma div_pos_of_dvd: "(0::int) < z \<Longrightarrow> 2 ^ n dvd z \<Longrightarrow> z div 2 ^ n \<noteq> 0"
  by (auto elim!: dvdE)

lemma GaussianMixtureCAE_build_model_output_layer:
  "output_layer (fst (snd (GaussianMixtureCAE_build_model self freeze w))) =
     output_layer (fst (GaussianMixtureCAE_build_layers self w))"
proof -
  obtain self1 w1 where bl: "GaussianMixtureCAE_build_layers self w = (self1, w1)"
    by (cases "GaussianMixtureCAE_build_layers self w")
  obtain r self' w' where bm: "GaussianMixtureCAE_build_model self freeze w = (r, self', w')"
    by (cases "GaussianMixtureCAE_build_model self freeze w")
  show ?thesis
    using build_model_graph [OF bl compile_model_frame
        bm [unfolded GaussianMixtureCAE_build_model_def]] bl bm
    by simp
qed

text \<open>
  C1, as amended.  For every number of Gaussians \<open>m \<ge> 1\<close> and every input shape
  \<open>(z, y, x)\<close> of positive sizes that are each divisible by \<open>2 ^ n\<close>, \<open>n\<close> the
  number of entries of \<^verbatim>\<open>nb_filters_per_layer\<close>, and with padding \<^verbatim>\<open>'same'\<close>,
  \<^verbatim>\<open>build_model\<close> builds a network Input \<open>\<rightarrow>\<close> encoder \<open>\<rightarrow>\<close> decoder \<open>\<rightarrow>\<close>
  output whose output layer is the concatenation along the last axis of, in this order, the
  \<open>m\<close> log-priors (a \<^verbatim>\<open>Dense\<close> layer with \<^verbatim>\<open>log_softmax\<close>), the \<open>m\<close>
  variances (a \<^verbatim>\<open>ShiftedELU\<close> layer) and the \<open>z * y * x * m\<close> means (the flattened
  convolution of the decoder's output), of width \<open>2 * m + z * y * x * m\<close>.
\<close>

theorem gmd_output_layer:
  fixes m z y x :: int and fs :: "int list" and ks bn opt pat path fmt hf
  defines "self \<equiv> GaussianMixtureCAE_init m (z, y, x) fs ks Same bn opt pat path fmt hf"
  assumes pos: "0 < m" "0 < z" "0 < y" "0 < x"
    and dvd: "2 ^ length fs dvd z" "2 ^ length fs dvd y" "2 ^ length fs dvd x"
    and bm: "GaussianMixtureCAE_build_model self freeze w = (r, self', w')"
  shows "\<exists>name lp ss.
     let input = Tensor (Input [Some z, Some y, Some x, Some 1] name) [];
         decoded = build_decoder_layers self (build_encoder_layers self input);
         log_prior = Tensor (Dense m (Some log_softmax) ''log_prior'') [lp];
         sigma_sq = Tensor (ShiftedELU 1 1 ''sigma_sq'') [ss];
         mu = Tensor (Flatten ''mu'') [Tensor (Conv3D m ks (1, 1, 1) Same ''mu_conv3d'') [decoded]];
         gmd = Tensor (Concatenate (- 1) ''gmd'') [log_prior, sigma_sq, mu]
     in input_layer self' = Some input \<and> output_layer self' = Some gmd \<and>
        output_shape log_prior = Some [None, Some m] \<and>
        output_shape sigma_sq = Some [None, Some m] \<and>
        output_shape mu = Some [None, Some (z * y * x * m)] \<and>
        output_shape gmd = Some [None, Some (2 * m + z * y * x * m)] \<and>
        (r = Inr () \<longrightarrow> map_option inputs (model self') = Some input \<and>
                         map_option outputs (model self') = Some gmd)"
proof -
  let ?name = "fst (auto_name ''input'' w)"
  let ?input = "Tensor (Input [Some z, Some y, Some x, Some 1] ?name) []"
  let ?enc = "build_encoder_layers self ?input"
  let ?dec = "build_decoder_layers self ?enc"
  have f: "padding self = Same" "nb_filters_per_layer self = fs" "input_shape self = (z, y, x)"
    "n_gaussians self = m" "kernel_size self = ks" "n_dense_log_prior self = 128"
    "n_dense_sigma_sq self = 128"
    by (simp_all add: self_def GaussianMixtureCAE_init_def)
  have e: "output_shape ?enc = Some [None, Some (z div 2 ^ length fs), Some (y div 2 ^ length fs),
             Some (x div 2 ^ length fs), last (Some 1 # map Some fs)]"
    using encoder_shape_same [of self z y x ?name] dvd f by simp
  have d: "output_shape ?dec = Some [None, Some z, Some y, Some x,
             Some (if fs = [] then 1 else hd fs)]"
    using autoencoder_shape_same [of self z y x ?name] dvd f by simp
  obtain lp ss where h:
    "build_gmd_layers self ?enc ?dec =
       Tensor (Concatenate (- 1) ''gmd'')
         [Tensor (Dense m (Some log_softmax) ''log_prior'') [lp],
          Tensor (ShiftedELU 1 1 ''sigma_sq'') [ss],
          Tensor (Flatten ''mu'') [Tensor (Conv3D m ks (1, 1, 1) Same ''mu_conv3d'') [?dec]]]"
    "output_shape (Tensor (Dense m (Some log_softmax) ''log_prior'') [lp]) = Some [None, Some m]"
    "output_shape (Tensor (ShiftedELU 1 1 ''sigma_sq'') [ss]) = Some [None, Some m]"
    "output_shape (Tensor (Flatten ''mu'') [Tensor (Conv3D m ks (1, 1, 1) Same ''mu_conv3d'') [?dec]]) =
       Some [None, Some (z * y * x * m)]"
    "output_shape (build_gmd_layers self ?enc ?dec) = Some [None, Some (2 * m + z * y * x * m)]"
    using gmd_head_shapes [OF e d, of self] pos dvd f
    by (auto simp: div_pos_of_dvd)
  obtain self1 w1 where bl: "GaussianMixtureCAE_build_layers self w = (self1, w1)"
    by (cases "GaussianMixtureCAE_build_layers self w")
  have g: "input_layer self1 = Some ?input" "output_layer self1 = Some (build_gmd_layers self ?enc ?dec)"
    using GaussianMixtureCAE_build_layers_graph [OF f(3), of w] bl by simp_all
  have b: "input_layer self' = input_layer self1 \<and> output_layer self' = output_layer self1 \<and>
         (r = Inr () \<longrightarrow> map_option inputs (model self') = input_layer self1 \<and>
                          map_option outputs (model self') = output_layer self1)"
    by (rule build_model_graph [OF bl compile_model_frame
          bm [unfolded GaussianMixtureCAE_build_model_def]])
  show ?thesis
    apply (rule exI [of _ ?name], rule exI [of _ lp], rule exI [of _ ss])
    unfolding Let_def using b g h by simp
qed

theorem gmd_output_layer_witness:
  "(0::int) < 2 \<and> (0::int) < 8 \<and> (2::int) ^ length [64, 128, 256 :: int] dvd 8 \<and>
   map_option output_shape (output_layer (fst (snd (GaussianMixtureCAE_build_model
     (GaussianMixtureCAE_init 2 (8, 8, 8) [64, 128, 256] (3, 3, 3) Same False
        ''adam'' 10 ''/tmp/'' ''weights.hdf5'' 0) None initial_world)))) =
     Some (Some [None, Some 1028])"
  using gmd_output_layer [where m = 2 and z = 8 and y = 8 and x = 8 and fs = "[64, 128, 256]"
      and ks = "(3, 3, 3)" and bn = False and opt = "''adam''" and pat = 10
      and path = "''/tmp/''" and fmt = "''weights.hdf5''" and hf = 0
      and freeze = None and w = initial_world
      and r = "fst (GaussianMixtureCAE_build_model
        (GaussianMixtureCAE_init 2 (8, 8, 8) [64, 128, 256] (3, 3, 3) Same False
           ''adam'' 10 ''/tmp/'' ''weights.hdf5'' 0) None initial_world)"
      and self' = "fst (snd (GaussianMixtureCAE_build_model
        (GaussianMixtureCAE_init 2 (8, 8, 8) [64, 128, 256] (3, 3, 3) Same False
           ''adam'' 10 ''/tmp/'' ''weights.hdf5'' 0) None initial_world))"
      and w' = "snd (snd (GaussianMixtureCAE_build_model
        (GaussianMixtureCAE_init 2 (8, 8, 8) [64, 128, 256] (3, 3, 3) Same False
           ''adam'' 10 ''/tmp/'' ''weights.hdf5'' 0) None initial_world))"]
  by (auto simp: Let_def)

text \<open>
  The claim as stated, for every input shape, fails: with the default filters and the
  input shape \<open>(20, 20, 20)\<close> the encoder takes 20 to 10, 5 and 3 and the decoder takes
  3 to 6, 12 and 24, so the means have \<open>24 * 24 * 24 * m\<close> entries, not
  \<open>20 * 20 * 20 * m\<close>.
\<close>

theorem gmd_output_width_counterexample:
  "map_option output_shape (output_layer (fst (snd (GaussianMixtureCAE_build_model
     (GaussianMixtureCAE_init 2 (20, 20, 20) [64, 128, 256] (3, 3, 3) Same False
        ''adam'' 10 ''/tmp/'' ''weights.hdf5'' 0) None initial_world)))) =
     Some (Some [None, Some 27652]) \<and>
   (27652 :: int) \<noteq> 2 * 2 + 20 * 20 * 20 * 2"
  by (simp add: GaussianMixtureCAE_build_model_output_layer GaussianMixtureCAE_build_layers_def
      GaussianMixtureCAE_init_def Let_def split_def build_encoder_layers_def
      build_decoder_layers_def encoder_block_def decoder_block_def custom_conv3d_def
      custom_conv3dtranspose_def build_gmd_layers_def compute_output_shape_def single_def
      conv3d_output_shape_def conv3dtranspose_output_shape_def flatten_output_shape_def
      dense_output_shape_def concatenate_shape_def truthy_def conv_output_length_def
      deconv_length_def)

subsection \<open>Building and freezing\<close>

lemma get_layer_from_found:
  "name \<in> set (map (\<lambda>l. layer_name (config l)) ls) \<Longrightarrow>
   \<exists>k < length ls. get_layer_from ls name j = Inr (j + k) \<and> layer_name (config (ls ! k)) = name"
proof (induction ls arbitrary: j)
  case Nil
  then show ?case by simp
next
  case (Cons l ls)
  show ?case
  proof (cases "layer_name (config l) = name")
    case True
    then show ?thesis by (intro exI [of _ 0]) simp
  next
    case False
    with Cons.prems have "name \<in> set (map (\<lambda>l. layer_name (config l)) ls)" by auto
    from Cons.IH [OF this, of "Suc j"] obtain k where
      "k < length ls" "get_layer_from ls name (Suc j) = Inr (Suc j + k)"
      "layer_name (config (ls ! k)) = name" by blast
    with False show ?thesis by (intro exI [of _ "Suc k"]) simp
  qed
qed

lemma get_layer_from_missing:
  "name \<notin> set (map (\<lambda>l. layer_name (config l)) ls) \<Longrightarrow>
   get_layer_from ls name j = Inl (ValueError (''No such layer: '' @ name))"
  by (induction ls arbitrary: j) auto

lemma freeze_one:
  assumes "distinct (map (\<lambda>l. layer_name (config l)) ls)" "k < length ls"
  shows "ls[k := (ls ! k)\<lparr>trainable := False\<rparr>] =
         map (\<lambda>l. if layer_name (config l) = layer_name (config (ls ! k))
                   then l\<lparr>trainable := False\<rparr> else l) ls"
proof (rule nth_equalityI)
  show "length (ls[k := (ls ! k)\<lparr>trainable := False\<rparr>]) = length (map (\<lambda>l. if layer_name (config l) = layer_name (config (ls ! k))
                   then l\<lparr>trainable := False\<rparr> else l) ls)" by simp
next
  fix i assume "i < length (ls[k := (ls ! k)\<lparr>trainable := False\<rparr>])"
  then have i: "i < length ls" by simp
  have "i \<noteq> k \<Longrightarrow> layer_name (config (ls ! i)) \<noteq> layer_name (config (ls ! k))"
    using assms i nth_eq_iff_index_eq [of "map (\<lambda>l. layer_name (config l)) ls" i k] by simp
  then show "ls[k := (ls ! k)\<lparr>trainable := False\<rparr>] ! i =
      map (\<lambda>l. if layer_name (config l) = layer_name (config (ls ! k))
                   then l\<lparr>trainable := False\<rparr> else l) ls ! i"
    using i assms(2) by (cases "i = k") simp_all
qed

lemma freeze_layers_found:
  "distinct (map (\<lambda>l. layer_name (config l)) (layers m)) \<Longrightarrow>
   set names \<subseteq> set (map (\<lambda>l. layer_name (config l)) (layers m)) \<Longrightarrow>
   freeze_layers names m w =
     (Inr (),
      m\<lparr>layers := map (\<lambda>l. if layer_name (config l) \<in> set names
                             then l\<lparr>trainable := False\<rparr> else l) (layers m)\<rparr>,
      w\<lparr>log := log w @ map (\<lambda>n. Print (n @ '' is set to 0'')) names\<rparr>)"
proof (induction names arbitrary: m w)
  case Nil
  then show ?case by (simp add: map_idI)
next
  case (Cons a names)
  let ?ls = "layers m"
  from Cons.prems(2) have a: "a \<in> set (map (\<lambda>l. layer_name (config l)) ?ls)" by simp
  from get_layer_from_found [OF a, of 0] obtain k where
    k: "k < length ?ls" "get_layer m a = Inr k" "layer_name (config (?ls ! k)) = a"
    by (auto simp: get_layer_def)
  let ?f = "\<lambda>l. if layer_name (config l) = a then l\<lparr>trainable := False\<rparr> else l"
  let ?m1 = "m\<lparr>layers := ?ls[k := (?ls ! k)\<lparr>trainable := False\<rparr>]\<rparr>"
  have u: "?ls[k := (?ls ! k)\<lparr>trainable := False\<rparr>] = map ?f ?ls"
    using freeze_one [OF Cons.prems(1) k(1)] k(3) by simp
  have n: "map (\<lambda>l. layer_name (config l)) (map ?f ?ls) = map (\<lambda>l. layer_name (config l)) ?ls"
    by (simp add: comp_def)
  have l1: "layers ?m1 = map ?f ?ls"
    using u by simp
  have d: "distinct (map (\<lambda>l. layer_name (config l)) (layers ?m1))"
    unfolding l1 n by (rule Cons.prems(1))
  have s: "set names \<subseteq> set (map (\<lambda>l. layer_name (config l)) (layers ?m1))"
    unfolding l1 n using Cons.prems(2) by simp
  have c: "map (\<lambda>l. if layer_name (config l) \<in> set names then l\<lparr>trainable := False\<rparr> else l)
             (map ?f ?ls) =
           map (\<lambda>l. if layer_name (config l) \<in> set (a # names) then l\<lparr>trainable := False\<rparr> else l) ?ls"
    by (rule nth_equalityI) auto
  have "freeze_layers (a # names) m w = freeze_layers names ?m1 (emit (Print (a @ '' is set to 0'')) w)"
    using k(2) by (simp add: Let_def)
  also have "\<dots> = (Inr (),
      ?m1\<lparr>layers := map (\<lambda>l. if layer_name (config l) \<in> set names
                             then l\<lparr>trainable := False\<rparr> else l) (layers ?m1)\<rparr>,
      (emit (Print (a @ '' is set to 0'')) w)\<lparr>log := log (emit (Print (a @ '' is set to 0'')) w) @
          map (\<lambda>n. Print (n @ '' is set to 0'')) names\<rparr>)"
    by (rule Cons.IH [OF d s])
  also have "\<dots> = (Inr (),
      m\<lparr>layers := map (\<lambda>l. if layer_name (config l) \<in> set (a # names)
                             then l\<lparr>trainable := False\<rparr> else l) (layers m)\<rparr>,
      w\<lparr>log := log w @ map (\<lambda>n. Print (n @ '' is set to 0'')) (a # names)\<rparr>)"
    unfolding l1 c by (simp add: emit_def)
  finally show ?case .
qed

lemma freeze_layers_missing:
  "\<not> set names \<subseteq> set (map (\<lambda>l. layer_name (config l)) (layers m)) \<Longrightarrow>
   \<exists>n m1 w1. n \<in> set names \<and> n \<notin> set (map (\<lambda>l. layer_name (config l)) (layers m)) \<and>
     freeze_layers names m w = (Inl (ValueError (''No such layer: '' @ n)), m1, w1) \<and>
     compiled m1 = compiled m"
proof (induction names arbitrary: m w)
  case Nil
  then show ?case by simp
next
  case (Cons a names)
  show ?case
  proof (cases "a \<in> set (map (\<lambda>l. layer_name (config l)) (layers m))")
    case False
    then show ?thesis
      using get_layer_from_missing [OF False, of 0]
      by (intro exI [of _ a] exI [of _ m] exI [of _ w]) (simp add: get_layer_def)
  next
    case True
    from get_layer_from_found [OF True, of 0] obtain k where
      k: "k < length (layers m)" "get_layer m a = Inr k"
      by (auto simp: get_layer_def)
    let ?m1 = "m\<lparr>layers := (layers m)[k := (layers m ! k)\<lparr>trainable := False\<rparr>]\<rparr>"
    have n: "map (\<lambda>l. layer_name (config l)) (layers ?m1) = map (\<lambda>l. layer_name (config l)) (layers m)"
      using k(1) by (simp add: map_update list_update_same_conv)
    from Cons.prems True have "\<not> set names \<subseteq> set (map (\<lambda>l. layer_name (config l)) (layers ?m1))"
      unfolding n by auto
    from Cons.IH [OF this, of "emit (Print (a @ '' is set to 0'')) w"]
    obtain b m2 w2 where b: "b \<in> set names"
      "b \<notin> set (map (\<lambda>l. layer_name (config l)) (layers ?m1))"
      "freeze_layers names ?m1 (emit (Print (a @ '' is set to 0'')) w) =
         (Inl (ValueError (''No such layer: '' @ b)), m2, w2)"
      "compiled m2 = compiled ?m1"
      by blast
    have "freeze_layers (a # names) m w = (Inl (ValueError (''No such layer: '' @ b)), m2, w2)"
      using k(2) b(3) by (simp add: Let_def)
    then show ?thesis
      using b(1,2,4) unfolding n
      by (intro exI [of _ b] exI [of _ m2] exI [of _ w2]) simp
  qed
qed

lemma keras_Model_layers:
  "keras_Model i out = Inr m \<Longrightarrow> distinct (map (\<lambda>l. layer_name (config l)) (layers m))"
  by (auto simp: keras_Model_def Let_def comp_def split: option.splits if_splits)

lemma build_model_unfold:
  assumes "build_layers' self w = (self1, w1)"
  shows "build_model build_layers' compile_model' self freeze w =
     (case keras_Model (input_layer self1) (output_layer self1) of
        Inl e \<Rightarrow> (Inl e, self1, w1)
      | Inr m \<Rightarrow>
          (case (case freeze of None \<Rightarrow> (Inr (), m, w1)
                              | Some names \<Rightarrow> freeze_layers names m w1) of
             (Inl e, m1, w2) \<Rightarrow> (Inl e, self1\<lparr>model := Some m1\<rparr>, w2)
           | (Inr u, m1, w2) \<Rightarrow> (Inr (), compile_model' (self1\<lparr>model := Some m1\<rparr>), w2)))"
  by (simp add: build_model_def assms)

lemma compile_model_compiled:
  "compile_model (s\<lparr>model := Some m\<rparr>) =
     s\<lparr>model := Some (m\<lparr>compiled := Some \<lparr>compile_optimizer = optimizer s, compile_loss = loss s,
                                             compile_metrics = []\<rparr>\<rparr>)\<rparr>"
  by (simp add: compile_model_def)

lemma LungNet_compile_model_compiled:
  "LungNet_compile_model (s\<lparr>model := Some m\<rparr>) =
     s\<lparr>model := Some (m\<lparr>compiled := Some \<lparr>compile_optimizer = optimizer s, compile_loss = loss s,
                                             compile_metrics = [''accuracy'']\<rparr>\<rparr>)\<rparr>"
  by (simp add: LungNet_compile_model_def)

text \<open>
  C10.  When the model is built and \<^verbatim>\<open>freeze\<close> is a list of names of layers of the
  model, \<^verbatim>\<open>build_model\<close> returns normally, sets \<^verbatim>\<open>trainable\<close> to
  \<^verbatim>\<open>False\<close> on exactly the layers whose name is in the list and leaves every other
  layer as it is, printing one line per name; when \<^verbatim>\<open>freeze\<close> is \<^verbatim>\<open>None\<close> no
  layer is touched.  In both cases \<^verbatim>\<open>_compile_model\<close> is applied last, to the object
  that holds the frozen model; the \<^verbatim>\<open>_compile_model\<close> of \<^verbatim>\<open>NakedModel\<close> and
  the one of \<^verbatim>\<open>LungNet\<close> set the compile arguments of the model and nothing else.
\<close>

theorem build_model_freeze:
  assumes bl: "build_layers' self w = (self1, w1)"
    and km: "keras_Model (input_layer self1) (output_layer self1) = Inr m"
    and fr: "case freeze of None \<Rightarrow> True
             | Some names \<Rightarrow> set names \<subseteq> set (map (\<lambda>l. layer_name (config l)) (layers m))"
  shows "build_model build_layers' compile_model' self freeze w =
           (Inr (),
            compile_model' (self1\<lparr>model := Some (m\<lparr>layers :=
               map (\<lambda>l. if (case freeze of None \<Rightarrow> False
                              | Some names \<Rightarrow> layer_name (config l) \<in> set names)
                         then l\<lparr>trainable := False\<rparr> else l) (layers m)\<rparr>)\<rparr>),
            w1\<lparr>log := log w1 @ (case freeze of None \<Rightarrow> []
                                  | Some names \<Rightarrow> map (\<lambda>n. Print (n @ '' is set to 0'')) names)\<rparr>) \<and>
         (freeze = None \<longrightarrow>
            build_model build_layers' compile_model' self freeze w =
              (Inr (), compile_model' (self1\<lparr>model := Some m\<rparr>), w1)) \<and>
         compile_model (s\<lparr>model := Some m'\<rparr>) =
           s\<lparr>model := Some (m'\<lparr>compiled := Some \<lparr>compile_optimizer = optimizer s,
              compile_loss = loss s, compile_metrics = []\<rparr>\<rparr>)\<rparr> \<and>
         LungNet_compile_model (s'\<lparr>model := Some m'\<rparr>) =
           s'\<lparr>model := Some (m'\<lparr>compiled := Some \<lparr>compile_optimizer = optimizer s',
              compile_loss = loss s', compile_metrics = [''accuracy'']\<rparr>\<rparr>)\<rparr>"
proof (cases freeze)
  case None
  then show ?thesis
    using km by (simp add: build_model_unfold [where build_layers' = build_layers' and self = self and w = w, OF bl] compile_model_compiled
        LungNet_compile_model_compiled map_idI)
next
  case (Some names)
  have s: "set names \<subseteq> set (map (\<lambda>l. layer_name (config l)) (layers m))"
    using fr Some by simp
  show ?thesis
    using km Some
    by (simp add: build_model_unfold [where build_layers' = build_layers' and self = self and w = w, OF bl] compile_model_compiled
        LungNet_compile_model_compiled freeze_layers_found [OF keras_Model_layers [OF km] s])
qed

theorem build_model_freeze_witness:
  "(case Some [''encoder_conv_1-2_0'', ''mu_conv3d''] of
      None \<Rightarrow> True
    | Some names \<Rightarrow> set names \<subseteq> set (map (\<lambda>l. layer_name (config l))
        (layers (projr (keras_Model
           (input_layer (fst (GaussianMixtureCAE_build_layers
              (GaussianMixtureCAE_init 2 (2, 2, 2) [4] (3, 3, 3) Same False
                 ''adam'' 10 ''/tmp/'' ''weights.hdf5'' 0) initial_world)))
           (output_layer (fst (GaussianMixtureCAE_build_layers
              (GaussianMixtureCAE_init 2 (2, 2, 2) [4] (3, 3, 3) Same False
                 ''adam'' 10 ''/tmp/'' ''weights.hdf5'' 0) initial_world)))))))) \<and>
   fst (GaussianMixtureCAE_build_model
          (GaussianMixtureCAE_init 2 (2, 2, 2) [4] (3, 3, 3) Same False
             ''adam'' 10 ''/tmp/'' ''weights.hdf5'' 0)
          (Some [''encoder_conv_1-2_0'', ''mu_conv3d'']) initial_world) = Inr () \<and>
   log (snd (snd (GaussianMixtureCAE_build_model
          (GaussianMixtureCAE_init 2 (2, 2, 2) [4] (3, 3, 3) Same False
             ''adam'' 10 ''/tmp/'' ''weights.hdf5'' 0)
          (Some [''encoder_conv_1-2_0'', ''mu_conv3d'']) initial_world))) =
     [Print ''encoder_conv_1-2_0 is set to 0'', Print ''mu_conv3d is set to 0'']"
proof -
  let ?self = "GaussianMixtureCAE_init 2 (2, 2, 2) [4] (3, 3, 3) Same False
                 ''adam'' 10 ''/tmp/'' ''weights.hdf5'' 0"
  let ?s1 = "fst (GaussianMixtureCAE_build_layers ?self initial_world)"
  let ?w1 = "snd (GaussianMixtureCAE_build_layers ?self initial_world)"
  let ?m = "projr (keras_Model (input_layer ?s1) (output_layer ?s1))"
  have bl: "GaussianMixtureCAE_build_layers ?self initial_world = (?s1, ?w1)"
    by simp
  have "\<not> isl (keras_Model (input_layer ?s1) (output_layer ?s1))"
    by code_simp
  then have km: "keras_Model (input_layer ?s1) (output_layer ?s1) = Inr ?m"
    by simp
  have fr: "case Some [''encoder_conv_1-2_0'', ''mu_conv3d''] of
      None \<Rightarrow> True
    | Some names \<Rightarrow> set names \<subseteq> set (map (\<lambda>l. layer_name (config l)) (layers ?m))"
    by code_simp
  have w: "log ?w1 = []"
    by code_simp
  show ?thesis
    using build_model_freeze [where build_layers' = GaussianMixtureCAE_build_layers
        and compile_model' = compile_model and self = ?self and w = initial_world,
        OF bl km fr, THEN conjunct1]
      fr w
    by (simp add: GaussianMixtureCAE_build_model_def)
qed

text \<open>
  A name in \<^verbatim>\<open>freeze\<close> that no layer of the model has makes \<^verbatim>\<open>get_layer\<close> raise
  \<^verbatim>\<open>ValueError\<close>; the model is then left without being compiled.
\<close>

lemma build_model_unknown_layer:
  assumes bl: "build_layers' self w = (self1, w1)"
    and km: "keras_Model (input_layer self1) (output_layer self1) = Inr m"
    and fr: "freeze = Some names" "\<not> set names \<subseteq> set (map (\<lambda>l. layer_name (config l)) (layers m))"
  shows "\<exists>n m1 w2. n \<in> set names \<and>
           build_model build_layers' compile_model' self freeze w =
             (Inl (ValueError (''No such layer: '' @ n)), self1\<lparr>model := Some m1\<rparr>, w2) \<and>
           compiled m1 = None"
proof -
  from freeze_layers_missing [OF fr(2), of w1] obtain n m1 w2 where
    "n \<in> set names" "freeze_layers names m w1 = (Inl (ValueError (''No such layer: '' @ n)), m1, w2)"
    "compiled m1 = compiled m" by blast
  then show ?thesis
    using km fr(1) keras_Model_frame [OF km]
    by (intro exI [of _ n] exI [of _ m1] exI [of _ w2]) (simp add: build_model_unfold [where build_layers' = build_layers' and self = self and w = w, OF bl])
qed

subsection \<open>Compiling GaussianMixtureCAE\<close>

lemma GaussianMixtureCAE_build_layers_fields:
  "optimizer (fst (GaussianMixtureCAE_build_layers self w)) = optimizer self \<and>
   loss (fst (GaussianMixtureCAE_build_layers self w)) = loss self \<and>
   model (fst (GaussianMixtureCAE_build_layers self w)) = model self"
  by (simp add: GaussianMixtureCAE_build_layers_def Let_def split_def)

text \<open>
  C2.  A \<^verbatim>\<open>GaussianMixtureCAE\<close> constructed with input shape \<open>(z, y, x)\<close>,
  \<open>m\<close> Gaussians and an optimizer holds the loss
  \<^verbatim>\<open>build_gmd_log_likelihood(c, m)\<close> with \<open>c = z * y * x\<close>, and whenever
  \<^verbatim>\<open>build_model\<close> returns normally its model is compiled with that loss and that
  optimizer (and no metrics); when \<^verbatim>\<open>build_model\<close> raises, the model is not compiled.
\<close>

theorem compiled_with_gmd_log_likelihood:
  fixes m z y x :: int and fs ks p bn opt pat path fmt hf
  defines "self \<equiv> GaussianMixtureCAE_init m (z, y, x) fs ks p bn opt pat path fmt hf"
  assumes bm: "GaussianMixtureCAE_build_model self freeze w = (r, self', w')"
  shows "loss self = Some (build_gmd_log_likelihood (z * y * x) m) \<and> optimizer self = opt \<and>
         (r = Inr () \<longrightarrow>
            map_option compiled (model self') =
              Some (Some \<lparr>compile_optimizer = opt,
                           compile_loss = Some (build_gmd_log_likelihood (z * y * x) m),
                           compile_metrics = []\<rparr>)) \<and>
         (r \<noteq> Inr () \<longrightarrow> model self' = None \<or> map_option compiled (model self') = Some None)"
proof -
  let ?s1 = "fst (GaussianMixtureCAE_build_layers self w)"
  let ?w1 = "snd (GaussianMixtureCAE_build_layers self w)"
  have bl: "GaussianMixtureCAE_build_layers self w = (?s1, ?w1)" by simp
  have i: "loss self = Some (build_gmd_log_likelihood (z * y * x) m)" "optimizer self = opt"
    "model self = None"
    by (simp_all add: self_def GaussianMixtureCAE_init_def)
  note f = GaussianMixtureCAE_build_layers_fields [of self w]
  note u = build_model_unfold [where build_layers' = GaussianMixtureCAE_build_layers
      and self = self and w = w and compile_model' = compile_model and freeze = freeze, OF bl]
  show ?thesis
  proof (cases "keras_Model (input_layer ?s1) (output_layer ?s1)")
    case (Inl e)
    then show ?thesis
      using bm u i f by (auto simp: GaussianMixtureCAE_build_model_def)
  next
    case (Inr m0)
    note k = keras_Model_frame [OF Inr]
    obtain r1 m1 w2 where fz: "(case freeze of None \<Rightarrow> (Inr (), m0, ?w1)
                              | Some names \<Rightarrow> freeze_layers names m0 ?w1) = (r1, m1, w2)"
      by (metis prod_cases3)
    have c: "compiled m1 = None"
      using fz k freeze_layers_frame by (cases freeze) auto
    show ?thesis
      using bm u i f Inr fz c
      by (cases r1) (auto simp: GaussianMixtureCAE_build_model_def compile_model_compiled)
  qed
qed

theorem compiled_with_gmd_log_likelihood_witness:
  "fst (GaussianMixtureCAE_build_model
          (GaussianMixtureCAE_init 2 (2, 4, 2) [16] (3, 3, 3) Same False
             ''adam'' 10 ''/tmp/'' ''weights.hdf5'' 0) None initial_world) = Inr () \<and>
   map_option compiled (model (fst (snd (GaussianMixtureCAE_build_model
          (GaussianMixtureCAE_init 2 (2, 4, 2) [16] (3, 3, 3) Same False
             ''adam'' 10 ''/tmp/'' ''weights.hdf5'' 0) None initial_world)))) =
     Some (Some \<lparr>compile_optimizer = ''adam'',
                  compile_loss = Some (build_gmd_log_likelihood 16 2),
                  compile_metrics = []\<rparr>)"
proof -
  let ?b = "GaussianMixtureCAE_build_model
          (GaussianMixtureCAE_init 2 (2, 4, 2) [16] (3, 3, 3) Same False
             ''adam'' 10 ''/tmp/'' ''weights.hdf5'' 0) None initial_world"
  have r: "fst ?b = Inr ()"
    by code_simp
  have b: "?b = (fst ?b, fst (snd ?b), snd (snd ?b))"
    by simp
  show ?thesis
    using compiled_with_gmd_log_likelihood [OF b] r by simp
qed

subsection \<open>The activations of the mixture parameters\<close>

text \<open>
  C8.  In the output of \<^verbatim>\<open>_build_gmd_layers\<close> the variances are the output of the
  layer \<^verbatim>\<open>ShiftedELU(shift=1.0, alpha=1.0)\<close> and the log-priors the output of a
  \<^verbatim>\<open>Dense\<close> layer with the activation \<^verbatim>\<open>log_softmax\<close>; the shifted unit with
  these arguments is positive at every real number.
\<close>

theorem gmd_head_activations:
  "(\<exists>lp ss mu.
      build_gmd_layers self encoded decoded =
        Tensor (Concatenate (- 1) ''gmd'')
          [Tensor (Dense (n_gaussians self) (Some log_softmax) ''log_prior'') [lp],
           Tensor (ShiftedELU 1 1 ''sigma_sq'') [ss], mu]) \<and>
   0 < ShiftedELU_call 1 1 v"
proof -
  have "0 < ShiftedELU_call 1 1 v"
    by (simp add: ShiftedELU_call_def)
  then show ?thesis
    by (simp add: build_gmd_layers_def Let_def)
qed

theorem gmd_head_activations_witness:
  "(\<exists>lp ss mu.
      build_gmd_layers
        (GaussianMixtureCAE_init 2 (8, 8, 8) [64, 128, 256] (3, 3, 3) Same False
           ''adam'' 10 ''/tmp/'' ''weights.hdf5'' 0)
        (Tensor (Input [Some 1, Some 1, Some 1, Some 256] ''encoded'') [])
        (Tensor (Input [Some 8, Some 8, Some 8, Some 64] ''decoded'') []) =
        Tensor (Concatenate (- 1) ''gmd'')
          [Tensor (Dense 2 (Some log_softmax) ''log_prior'') [lp],
           Tensor (ShiftedELU 1 1 ''sigma_sq'') [ss], mu]) \<and>
   0 < ShiftedELU_call 1 1 (- 20)"
  using gmd_head_activations
    [of "GaussianMixtureCAE_init 2 (8, 8, 8) [64, 128, 256] (3, 3, 3) Same False
           ''adam'' 10 ''/tmp/'' ''weights.hdf5'' 0"
        "Tensor (Input [Some 1, Some 1, Some 1, Some 256] ''encoded'') []"
        "Tensor (Input [Some 8, Some 8, Some 8, Some 64] ''decoded'') []" "- 20"]
  by (simp add: GaussianMixtureCAE_init_def)

subsection \<open>The encoder shared by the two networks\<close>

lemma LungNet_build_layers_graph:
  "input_layer (fst (LungNet_build_layers self w)) =
     Some (Tensor (Input [None, None, None, Some 1] (fst (auto_name ''input'' w))) []) \<and>
   output_layer (fst (LungNet_build_layers self w)) =
     Some (fst (build_classifier_layers self
       (build_encoder_layers self
          (Tensor (Input [None, None, None, Some 1] (fst (auto_name ''input'' w))) []))
       (snd (auto_name ''input'' w))))"
  by (simp add: LungNet_build_layers_def Let_def split_def)

lemma call_layers_unary:
  "call_layers (Tensor l [t]) =
     (case call_layers t of
        Inl e \<Rightarrow> Inl e
      | Inr u \<Rightarrow> (case output_shape t of None \<Rightarrow> Inr () | Some s \<Rightarrow> layer_build l [s]))"
  by (cases "call_layers t"; cases "output_shape t") simp_all

lemma nodes_unary: "nodes (Tensor l [t]) = nodes t @ [Tensor l [t]]"
  by simp





lemma auto_name_prefix: "fst (auto_name p w) = p @ ''_'' @ str_nat (uids w p + 1)"
  by (simp add: auto_name_def get_uid_def Let_def)

lemma call_layers_plain:
  assumes "\<And>shapes. layer_build l shapes = Inr ()"
  shows "call_layers (Tensor l [t]) = call_layers t"
  by (cases "call_layers t"; cases "output_shape t") (simp_all add: assms)

lemma layer_build_plain:
  "layer_build (Dense units act name) shapes = Inr ()"
  "layer_build (Dropout rate name) shapes = Inr ()"
  "layer_build (SpatialPyramidPooling3D bins name) shapes = Inr ()"
  "layer_build (Activation a name) shapes = Inr ()"
  "layer_build (Flatten name) shapes = Inr ()"
  "layer_build (ShiftedELU sh al name) shapes = Inr ()"
  by (cases "single shapes"; simp add: layer_build_def)+

lemma classifier_dense_layers_nodes:
  "\<exists>rest. nodes (fst (classifier_dense_layers rate ns h w)) = nodes h @ rest \<and>
          chain (fst (classifier_dense_layers rate ns h w)) = chain h @ map tensor_layer rest \<and>
          (\<forall>t \<in> set rest. take 3 (layer_name (tensor_layer t)) \<in> {''den'', ''dro''}) \<and>
          call_layers (fst (classifier_dense_layers rate ns h w)) = call_layers h"
proof (induction ns arbitrary: h w)
  case Nil
  then show ?case by simp
next
  case (Cons n ns)
  let ?w1 = "snd (auto_name ''dense'' w)"
  let ?h1 = "Tensor (Dense n (Some (activation_name ''relu'')) (fst (auto_name ''dense'' w))) [h]"
  let ?w2 = "snd (auto_name ''dropout'' ?w1)"
  let ?h2 = "Tensor (Dropout rate (fst (auto_name ''dropout'' ?w1))) [?h1]"
  have p1: "take 3 (layer_name (tensor_layer ?h1)) = ''den''"
    by (simp add: auto_name_prefix)
  have p2: "take 3 (layer_name (tensor_layer ?h2)) = ''dro''"
    by (simp add: auto_name_prefix)
  have c1: "call_layers ?h1 = call_layers h"
    by (rule call_layers_plain) (rule layer_build_plain)
  have c2: "call_layers ?h2 = call_layers h"
    unfolding c1 [symmetric] by (rule call_layers_plain) (rule layer_build_plain)
  show ?case
  proof (cases "rate = 0")
    case True
    from Cons.IH [of ?h1 ?w1] obtain rest where
      r: "nodes (fst (classifier_dense_layers rate ns ?h1 ?w1)) = nodes ?h1 @ rest"
        "chain (fst (classifier_dense_layers rate ns ?h1 ?w1)) = chain ?h1 @ map tensor_layer rest"
        "\<forall>t \<in> set rest. take 3 (layer_name (tensor_layer t)) \<in> {''den'', ''dro''}"
        "call_layers (fst (classifier_dense_layers rate ns ?h1 ?w1)) = call_layers ?h1"
      by blast
    have e: "classifier_dense_layers rate (n # ns) h w = classifier_dense_layers rate ns ?h1 ?w1"
      using True by (simp add: split_def Let_def)
    show ?thesis
      unfolding e using r p1 c1
      by (intro exI [of _ "?h1 # rest"]) simp
  next
    case False
    from Cons.IH [of ?h2 ?w2] obtain rest where
      r: "nodes (fst (classifier_dense_layers rate ns ?h2 ?w2)) = nodes ?h2 @ rest"
        "chain (fst (classifier_dense_layers rate ns ?h2 ?w2)) = chain ?h2 @ map tensor_layer rest"
        "\<forall>t \<in> set rest. take 3 (layer_name (tensor_layer t)) \<in> {''den'', ''dro''}"
        "call_layers (fst (classifier_dense_layers rate ns ?h2 ?w2)) = call_layers ?h2"
      by blast
    have e: "classifier_dense_layers rate (n # ns) h w = classifier_dense_layers rate ns ?h2 ?w2"
      using False by (simp add: split_def Let_def)
    show ?thesis
      unfolding e using r p1 p2 c2
      by (intro exI [of _ "?h1 # ?h2 # rest"]) simp
  qed
qed

lemma build_classifier_layers_nodes:
  "\<exists>rest. nodes (fst (build_classifier_layers self enc w)) =
            nodes enc @ Tensor (SpatialPyramidPooling3D (spp_nb_bins_per_level self) ''spp3d'') [enc] # rest \<and>
          chain (fst (build_classifier_layers self enc w)) =
            chain enc @ SpatialPyramidPooling3D (spp_nb_bins_per_level self) ''spp3d'' # map tensor_layer rest \<and>
          (\<forall>t \<in> set rest. take 3 (layer_name (tensor_layer t)) \<in> {''den'', ''dro''}) \<and>
          call_layers (fst (build_classifier_layers self enc w)) = call_layers enc"
proof -
  let ?h = "Tensor (SpatialPyramidPooling3D (spp_nb_bins_per_level self) ''spp3d'') [enc]"
  let ?r = "classifier_dense_layers (dropout_rate self) (n_dense self) ?h w"
  let ?y = "Tensor (Dense 1 (Some (activation_name ''sigmoid'')) (fst (auto_name ''dense'' (snd ?r)))) [fst ?r]"
  from classifier_dense_layers_nodes [of "dropout_rate self" "n_dense self" ?h w]
  obtain rest where
    r: "nodes (fst ?r) = nodes ?h @ rest"
      "chain (fst ?r) = chain ?h @ map tensor_layer rest"
      "\<forall>t \<in> set rest. take 3 (layer_name (tensor_layer t)) \<in> {''den'', ''dro''}"
      "call_layers (fst ?r) = call_layers ?h"
    by blast
  have y: "fst (build_classifier_layers self enc w) = ?y"
    by (simp add: build_classifier_layers_def Let_def split_def)
  have p: "take 3 (layer_name (tensor_layer ?y)) = ''den''"
    by (simp add: auto_name_prefix)
  have ch: "call_layers ?h = call_layers enc"
    by (rule call_layers_plain) (rule layer_build_plain)
  have cy: "call_layers ?y = call_layers (fst ?r)"
    by (rule call_layers_plain) (rule layer_build_plain)
  show ?thesis
    unfolding y using r p ch cy
    by (intro exI [of _ "rest @ [?y]"]) simp
qed















text \<open>
  With \<^verbatim>\<open>batch_normalization=True\<close> and at least one number of filters this is so for
  every \<^verbatim>\<open>LungNet\<close>: the first convolution gives a tensor of shape
  \<^verbatim>\<open>(None, None, None, None, f)\<close>, and the call of \<^verbatim>\<open>encoder_bn_1-2_0\<close> on it raises.
\<close>

lemma call_layers_raised:
  "call_layers t = Inl e \<Longrightarrow> call_layers (Tensor l [t]) = Inl e"
  by (simp add: call_layers_unary)

lemma custom_conv3d_raised:
  "call_layers t = Inl e \<Longrightarrow> call_layers (custom_conv3d self t f s name) = Inl e"
  by (simp add: custom_conv3d_def Let_def call_layers_raised)

lemma encoder_fold_raised:
  "call_layers t = Inl e \<Longrightarrow> call_layers (fold (encoder_block self) ps t) = Inl e"
proof (induction ps arbitrary: t)
  case Nil
  then show ?case by simp
next
  case (Cons p ps)
  obtain i f where p: "p = (i, f)" by (cases p)
  have "call_layers (encoder_block self p t) = Inl e"
    unfolding p encoder_block_def prod.case Let_def
    by (intro custom_conv3d_raised Cons.prems)
  from Cons.IH [OF this] show ?case by simp
qed

lemma lungnet_batch_normalization_raises:
  fixes l :: "'a LungNet_scheme"
  assumes "batch_normalization l" "nb_filters_per_layer l = f # fs"
  shows "\<exists>y. output_layer (fst (LungNet_build_layers l w)) = Some y \<and>
           call_layers y = Inl (ValueError (''Axis 1 of input tensor should have a defined dimension but the layer received an input with shape (None, None, None, None, '' @ str_int f @ '').''))"
proof -
  let ?e = "ValueError (''Axis 1 of input tensor should have a defined dimension but the layer received an input with shape (None, None, None, None, '' @ str_int f @ '').'')"
  let ?il = "Tensor (Input [None, None, None, Some 1] (fst (auto_name ''input'' w))) []"
  let ?c = "Tensor (Conv3D f (kernel_size l) (1, 1, 1) (padding l) (''encoder_conv_1-2_0'')) [?il]"
  let ?b = "Tensor (BatchNormalization 0 1 ''encoder_bn_1-2_0'') [?c]"
  obtain k1 k2 k3 where ks: "kernel_size l = (k1, k2, k3)" by (cases "kernel_size l")
  have sc: "output_shape ?c = Some [None, None, None, None, Some f]"
    by (simp add: ks compute_output_shape_def single_def conv3d_output_shape_def conv_None)
  have cc: "call_layers ?c = Inr ()"
    by (simp add: compute_output_shape_def layer_build_def single_def conv_build_def py_index_def)
  have o: "str_nat 1 = ''1''"
    by code_simp
  have cb: "call_layers ?b = Inl ?e"
    unfolding call_layers_unary [of _ ?c] cc sc
    using o
    by (simp add: layer_build_def single_def batch_normalization_build_def py_index_def
        str_tuple_def str_dim_def str_int_def)
  have z: "str_nat 0 = ''0''"
    by code_simp
  have "call_layers (custom_conv3d l ?il f (1, 1, 1) (''1-2_'' @ str_nat 0)) = Inl ?e"
    using assms(1) cb by (simp add: custom_conv3d_def Let_def z call_layers_raised)
  then have "call_layers (encoder_block l (0, f) ?il) = Inl ?e"
    unfolding encoder_block_def prod.case Let_def by (rule custom_conv3d_raised)
  then have "call_layers (build_encoder_layers l ?il) = Inl ?e"
    unfolding build_encoder_layers_def assms(2)
    by (simp add: encoder_fold_raised)
  then show ?thesis
    using LungNet_build_layers_graph [of l w] build_classifier_layers_nodes [of l "build_encoder_layers l ?il" "snd (auto_name ''input'' w)"]
    by auto
qed

subsection \<open>LungNet and the spatial size of its input\<close>









subsection \<open>Checking the input of predict\<close>

lemma check_input_array_raises:
  "(\<exists>msg. check_input_array x = Inl (ValueError msg)) \<longleftrightarrow>
     dtype x \<noteq> ''float32'' \<or> ndim x \<noteq> 5 \<or> last (shape x) \<noteq> 1"
  by (simp add: check_input_array_def)

lemma check_input_array_cases:
  "(\<exists>msg. check_input_array x = Inl (ValueError msg)) \<or> check_input_array x = Inr ()"
  by (simp add: check_input_array_def)

text \<open>
  C6.  \<^verbatim>\<open>_check_input_array\<close> raises \<^verbatim>\<open>ValueError\<close> exactly when the
  \<^verbatim>\<open>dtype\<close> of the array is not \<^verbatim>\<open>float32\<close>, or it does not have 5 dimensions,
  or its last dimension is not of size 1.  On such an array both \<^verbatim>\<open>predict\<close> methods
  raise that error whatever the model would predict, and leave the world as it was: the
  model has not been called.  On every other array the first thing they do is to call
  \<^verbatim>\<open>predict\<close> of the model (which fails with \<^verbatim>\<open>AttributeError\<close> when no model
  has been built).
\<close>

theorem predict_checks_input_first:
  fixes g :: "'a GaussianMixtureCAE_scheme" and l :: "'b LungNet_scheme"
  shows "((\<exists>msg. check_input_array x = Inl (ValueError msg)) \<longleftrightarrow>
            dtype x \<noteq> ''float32'' \<or> ndim x \<noteq> 5 \<or> last (shape x) \<noteq> 1) \<and>
         (check_input_array x = Inl e \<longrightarrow>
            GaussianMixtureCAE_predict kpredict g x w = (Inl e, w) \<and>
            LungNet_predict kpredict l x w = (Inl e, w)) \<and>
         (check_input_array x = Inr () \<longrightarrow>
            (case model g of
               None \<Rightarrow> GaussianMixtureCAE_predict kpredict g x w =
                         (Inl (AttributeError ''NoneType object has no attribute predict''), w)
             | Some m \<Rightarrow> log (snd (GaussianMixtureCAE_predict kpredict g x w)) =
                          log w @ [Call_predict m (shape x)]) \<and>
            (case model l of
               None \<Rightarrow> LungNet_predict kpredict l x w =
                         (Inl (AttributeError ''NoneType object has no attribute predict''), w)
             | Some m \<Rightarrow> LungNet_predict kpredict l x w =
                          (kpredict m x, w\<lparr>log := log w @ [Call_predict m (shape x)]\<rparr>)))"
proof -
  have g: "check_input_array x = Inr () \<Longrightarrow> model g = Some m \<Longrightarrow>
      log (snd (GaussianMixtureCAE_predict kpredict g x w)) = log w @ [Call_predict m (shape x)]" for m
    by (cases "kpredict m x")
       (simp_all add: GaussianMixtureCAE_predict_def model_predict_def emit_def Let_def)
  show ?thesis
    using g
    by (auto simp: check_input_array_raises GaussianMixtureCAE_predict_def LungNet_predict_def
        model_predict_def emit_def split: option.splits)
qed

theorem predict_checks_input_first_witness:
  "check_input_array \<lparr>dtype = ''float64'', shape = [1, 8, 8, 8, 1], item = (\<lambda>idx. 0 :: real)\<rparr> =
     Inl (ValueError ''Input array must be of type float32.'') \<and>
   GaussianMixtureCAE_predict (\<lambda>m a. Inr a)
     (GaussianMixtureCAE_init 2 (8, 8, 8) [64, 128, 256] (3, 3, 3) Same False
        ''adam'' 10 ''/tmp/'' ''weights.hdf5'' 0)
     \<lparr>dtype = ''float64'', shape = [1, 8, 8, 8, 1], item = (\<lambda>idx. 0)\<rparr> initial_world =
     (Inl (ValueError ''Input array must be of type float32.''), initial_world) \<and>
   LungNet_predict (\<lambda>m a. Inr a)
     (LungNet_init [64, 128, 256] (3, 3, 3) Same False [1, 2, 4] [1024, 1024] 0.5
        ''adam'' 10 ''/tmp/'' ''weights.hdf5'')
     \<lparr>dtype = ''float64'', shape = [1, 8, 8, 8, 1], item = (\<lambda>idx. 0)\<rparr> initial_world =
     (Inl (ValueError ''Input array must be of type float32.''), initial_world)"
proof -
  have c: "check_input_array \<lparr>dtype = ''float64'', shape = [1, 8, 8, 8, 1], item = (\<lambda>idx. 0 :: real)\<rparr> =
     Inl (ValueError ''Input array must be of type float32.'')"
    by (simp add: check_input_array_def)
  show ?thesis
    using predict_checks_input_first
      [of "\<lparr>dtype = ''float64'', shape = [1, 8, 8, 8, 1], item = (\<lambda>idx. 0 :: real)\<rparr>"
          "ValueError ''Input array must be of type float32.''" "\<lambda>m a. Inr a"
          "GaussianMixtureCAE_init 2 (8, 8, 8) [64, 128, 256] (3, 3, 3) Same False
             ''adam'' 10 ''/tmp/'' ''weights.hdf5'' 0" initial_world
          "LungNet_init [64, 128, 256] (3, 3, 3) Same False [1, 2, 4] [1024, 1024] 0.5
             ''adam'' 10 ''/tmp/'' ''weights.hdf5''"] c
    by simp
qed

subsection \<open>The reconstruction of GaussianMixtureCAE.predict\<close>

lemma broadcast_rows:
  "broadcast_shapes [S, a] [S, b] = Some s \<Longrightarrow> \<exists>c. s = [S, c]"
  by (auto simp: broadcast_shapes_def split: if_splits)

lemma np_take_batch_mismatch:
  assumes "shape which = [S]" "S \<noteq> 1" "X \<noteq> 1" "S \<noteq> X"
  shows "\<exists>e. np_take a (np_indices [S, Z, Y, X] @ [which]) = Inl e"
proof -
  have u: "[0..<4] = [0, 1, 2, 3]"
    by (simp add: upt_rec)
  have "fold (\<lambda>ix acc. Option.bind acc (broadcast_shapes (shape ix)))
          (np_indices [S, Z, Y, X] @ [which]) (Some []) = None"
    using assms by (simp add: np_indices_def u broadcast_shapes_def)
  then show ?thesis
    by (simp add: np_take_def)
qed

lemma np_split_axis1_rows:
  assumes "shape pred = [S, W]"
  shows "\<exists>parts. np_split_axis1 pred [m, 2 * m] = Inr parts \<and>
           (\<exists>a. shape (parts ! 0) = [S, a]) \<and> (\<exists>b. shape (parts ! 1) = [S, b])"
proof -
  have u: "[0..<Suc (Suc (Suc 0))] = [0, 1, 2]"
    by (simp add: upt_rec)
  show ?thesis
    using assms by (simp add: np_split_axis1_def ndim_def u slice_axis1_def Let_def)
qed

lemma bind_err_cases:
  "(\<exists>e. r = Inl e \<and> bind_err r f = Inl e) \<or> (\<exists>v. r = Inr v \<and> bind_err r f = f v)"
  by (cases r) (simp_all add: bind_err_def)

lemma GaussianMixtureCAE_build_model_n_gaussians:
  "n_gaussians (fst (snd (GaussianMixtureCAE_build_model self freeze w))) = n_gaussians self"
proof -
  let ?s1 = "fst (GaussianMixtureCAE_build_layers self w)"
  let ?w1 = "snd (GaussianMixtureCAE_build_layers self w)"
  have bl: "GaussianMixtureCAE_build_layers self w = (?s1, ?w1)" by simp
  have n: "n_gaussians ?s1 = n_gaussians self"
    by (simp add: GaussianMixtureCAE_build_layers_def Let_def split_def)
  show ?thesis
    unfolding GaussianMixtureCAE_build_model_def
      build_model_unfold [where build_layers' = GaussianMixtureCAE_build_layers
        and self = self and w = w, OF bl]
    using n
    by (auto simp: compile_model_def split: sum.splits option.splits prod.splits)
qed

lemma batch_model_built: "\<exists>m. model batch_model = Some m"
proof -
  have "model batch_model \<noteq> None"
    unfolding batch_model_def by code_simp
  then show ?thesis by auto
qed

lemma batch_model_n_gaussians: "n_gaussians batch_model = 2"
  by (simp add: batch_model_def GaussianMixtureCAE_build_model_n_gaussians
        GaussianMixtureCAE_init_def)

lemma upt_4: "[0..<4] = [0, 1, 2, 3]"
  by (simp add: upt_rec)

lemma upt_3: "[0..<Suc (Suc (Suc 0))] = [0, 1, 2]"
  by (simp add: upt_rec)

text \<open>
  C5.  The claim (and the docstring of \<^verbatim>\<open>predict\<close>) promise, for every valid array
  of shape \<open>(S, Z, Y, X, 1)\<close>, an array of the same shape whose voxels are the means of
  the Gaussian \<open>K\<close> of their sample.  The code indexes the means with
  \<^verbatim>\<open>mu[sample, z, y, x, which]\<close> where the four index arrays of
  \<^verbatim>\<open>np.indices\<close> have shape \<open>(S, Z, Y, X)\<close> and \<^verbatim>\<open>which\<close> has shape
  \<open>(S)\<close>: broadcasting aligns \<^verbatim>\<open>which\<close> with the last axis \<open>X\<close>, not with
  the samples.  So on every valid array with \<open>S \<noteq> 1\<close>, \<open>X \<noteq> 1\<close> and \<open>S \<noteq> X\<close>,
  for which the model returns one row per sample, \<^verbatim>\<open>predict\<close> raises instead of
  returning a reconstruction.
\<close>

theorem predict_batch_raises:
  assumes a: "dtype array = ''float32''" "shape array = [S, Z, Y, X, 1]"
    and m: "model self = Some mdl" "kpredict mdl array = Inr pred" "shape pred = [S, W]"
    and s: "S \<noteq> 1" "X \<noteq> 1" "S \<noteq> X"
  shows "\<exists>e. fst (GaussianMixtureCAE_predict kpredict self array w) = Inl e"
proof -
  let ?m = "n_gaussians self"
  from np_split_axis1_rows [OF m(3), of ?m] obtain parts sa sb where
    p: "np_split_axis1 pred [?m, 2 * ?m] = Inr parts"
      "shape (parts ! 0) = [S, sa]" "shape (parts ! 1) = [S, sb]"
    by blast
  let ?take = "\<lambda>mu which. bind_err (np_take mu (np_indices (butlast (shape array)) @ [which]))
                 (\<lambda>r. np_expand_dims r 4)"
  let ?arg = "\<lambda>mu ratio. bind_err (np_argmax_axis1 ratio) (?take mu)"
  let ?div = "\<lambda>mu. bind_err (np_divide (np_map exp (parts ! 0)) (np_map sqrt (parts ! 1))) (?arg mu)"
  let ?res = "bind_err (np_reshape (parts ! 2) [- 1, int Z, int Y, int X, ?m]) ?div"
  have t: "\<exists>e. ?take mu which = Inl e" if "shape which = [S]" for mu which
    using np_take_batch_mismatch [OF that s, of mu Z Y] a(2)
    by (auto simp: bind_err_def)
  have g: "\<exists>e. ?arg mu ratio = Inl e" if "\<exists>c. shape ratio = [S, c]" for mu ratio
  proof (cases "np_argmax_axis1 ratio")
    case (Inl e)
    then show ?thesis by (simp add: bind_err_def)
  next
    case (Inr which)
    then have "shape which = [S]"
      using that by (auto simp: np_argmax_axis1_def split: if_splits)
    from t [OF this] Inr show ?thesis by (simp add: bind_err_def)
  qed
  have d: "\<exists>e. ?div mu = Inl e" for mu
  proof (cases "np_divide (np_map exp (parts ! 0)) (np_map sqrt (parts ! 1))")
    case (Inl e)
    then show ?thesis by (simp add: bind_err_def)
  next
    case (Inr ratio)
    then have "\<exists>c. shape ratio = [S, c]"
      using p(2,3) broadcast_rows [of S sa sb]
      by (auto simp: np_divide_def np_map_def split: option.splits)
    from g [OF this] Inr show ?thesis by (simp add: bind_err_def)
  qed
  have r: "\<exists>e. ?res = Inl e"
  proof (cases "np_reshape (parts ! 2) [- 1, int Z, int Y, int X, ?m]")
    case (Inl e)
    then show ?thesis by (simp add: bind_err_def)
  next
    case (Inr mu)
    with d [of mu] show ?thesis by (simp add: bind_err_def)
  qed
  have c: "check_input_array array = Inr ()"
    using a by (simp add: check_input_array_def ndim_def)
  show ?thesis
    using r c m(1,2) p(1) a(2)
    by (simp add: GaussianMixtureCAE_predict_def model_predict_def Let_def bind_err_def)
qed

theorem predict_batch_raises_witness:
  "dtype (batch_input [3, 2, 2, 2, 1]) = ''float32'' \<and>
   shape (batch_input [3, 2, 2, 2, 1]) = [3, 2, 2, 2, 1] \<and>
   shape (batch_output 3) = [3, 20] \<and>
   (\<exists>e. fst (GaussianMixtureCAE_predict (\<lambda>m a. Inr (batch_output 3)) batch_model
            (batch_input [3, 2, 2, 2, 1]) initial_world) = Inl e)"
proof -
  obtain m where m: "model batch_model = Some m"
    using batch_model_built by blast
  have a: "dtype (batch_input [3, 2, 2, 2, 1]) = ''float32''"
    "shape (batch_input [3, 2, 2, 2, 1]) = [3, 2, 2, 2, 1]"
    by (simp_all add: batch_input_def)
  have p: "(\<lambda>m a. Inr (batch_output 3)) m (batch_input [3, 2, 2, 2, 1]) = Inr (batch_output 3)"
    "shape (batch_output 3) = [3, 20]"
    by (simp_all add: batch_output_def)
  show ?thesis
    using predict_batch_raises [where kpredict = "\<lambda>m a. Inr (batch_output 3)" and w = initial_world,
        OF a m p] a p(2)
    by simp
qed

text \<open>The error of that run is the \<^verbatim>\<open>IndexError\<close> of the indexing.\<close>

lemma predict_three_samples:
  "fst (GaussianMixtureCAE_predict (\<lambda>m a. Inr (batch_output 3)) batch_model
         (batch_input [3, 2, 2, 2, 1]) initial_world) =
     Inl (IndexError ''shape mismatch: indexing arrays could not be broadcast together'')"
proof -
  obtain m where m: "model batch_model = Some m"
    using batch_model_built by blast
  show ?thesis
    by (simp add: GaussianMixtureCAE_predict_def check_input_array_def ndim_def batch_input_def
        batch_output_def model_predict_def m batch_model_n_gaussians bind_err_def
        np_split_axis1_def Let_def upt_3 upt_4 slice_axis1_def slice_bound_def np_reshape_def
        np_map_def np_divide_def broadcast_shapes_def np_argmax_axis1_def np_indices_def
        np_take_def)
qed

subsection \<open>What \<open>GaussianMixtureCAE.predict\<close> returns when the index arrays do broadcast\<close>

text \<open>
  The remaining lemmas follow the prediction through \<open>np.split\<close>, \<open>np.reshape\<close>,
  \<open>np.argmax\<close> and the integer-array indexing, for a batch of \<open>S\<close> samples of
  \<open>Z \<times> Y \<times> X\<close> voxels and \<open>M\<close> Gaussians.
\<close>

lemma np_split_axis1_parts:
  assumes "shape pred = [S, W]" "2 * M \<le> W"
  shows "\<exists>lp ss mu. np_split_axis1 pred [int M, 2 * int M] = Inr [lp, ss, mu] \<and>
     shape lp = [S, M] \<and> shape ss = [S, M] \<and> shape mu = [S, W - 2 * M] \<and>
     dtype mu = dtype pred \<and>
     (\<forall>s k. item lp [s, k] = item pred [s, k]) \<and>
     (\<forall>s k. item ss [s, k] = item pred [s, k + M]) \<and>
     (\<forall>s j. item mu [s, j] = item pred [s, j + 2 * M])"
proof -
  have b: "slice_bound W 0 = 0" "slice_bound W (int M) = M" "slice_bound W (2 * int M) = 2 * M"
    "slice_bound W (int W) = W"
    using assms(2) by (auto simp: slice_bound_def nat_mult_distrib)
  show ?thesis
    using assms(1)
    by (simp add: np_split_axis1_def ndim_def upt_3 slice_axis1_def Let_def b)
qed

lemma argmax_from_less:
  "best < i \<Longrightarrow> argmax_from xs i best v < i + length xs"
proof (induction xs arbitrary: i best v)
  case Nil
  then show ?case by simp
next
  case (Cons a xs)
  have 1: "argmax_from xs (Suc i) i a < Suc i + length xs"
    by (rule Cons.IH) simp
  have 2: "argmax_from xs (Suc i) best v < Suc i + length xs"
    by (rule Cons.IH) (use Cons.prems in simp)
  show ?case using 1 2 by simp
qed

lemma div_mod_block:
  fixes r N s :: nat
  assumes "r < N"
  shows "(s * N + r) div N = s" "(s * N + r) mod N = r"
  using assms by simp_all

lemma argmax_list_less: "xs \<noteq> [] \<Longrightarrow> argmax_list xs < length xs"
  using argmax_from_less [of 0 1 "tl xs" "hd xs"]
  by (cases xs) (simp_all add: argmax_list_def)

lemma ravel5:
  "ravel [S, Z, Y, X, M] [s, z, y, x, k] = s * (Z * Y * X * M) + (((z * Y + y) * X + x) * M + k)"
  by (simp add: algebra_simps)

lemma mixed_radix_less:
  fixes z y x k :: nat
  assumes "z < Z" "y < Y" "x < X" "k < M"
  shows "((z * Y + y) * X + x) * M + k < Z * Y * X * M"
proof -
  have 1: "z * Y + y < Z * Y"
  proof -
    have "z * Y + y < z * Y + Y" using assms(2) by simp
    also have "\<dots> = Suc z * Y" by simp
    also have "\<dots> \<le> Z * Y" using assms(1) by (intro mult_le_mono1) simp
    finally show ?thesis .
  qed
  have 2: "(z * Y + y) * X + x < Z * Y * X"
  proof -
    have "(z * Y + y) * X + x < (z * Y + y) * X + X" using assms(3) by simp
    also have "\<dots> = Suc (z * Y + y) * X" by simp
    also have "\<dots> \<le> (Z * Y) * X" using 1 by (intro mult_le_mono1) simp
    finally show ?thesis .
  qed
  have "((z * Y + y) * X + x) * M + k < ((z * Y + y) * X + x) * M + M" using assms(4) by simp
  also have "\<dots> = Suc ((z * Y + y) * X + x) * M" by simp
  also have "\<dots> \<le> (Z * Y * X) * M" using 2 by (intro mult_le_mono1) simp
  finally show ?thesis .
qed

lemma np_reshape_means:
  assumes "shape mu = [S, Z * Y * X * M]" "0 < Z * Y * X * M"
  shows "\<exists>mu5. np_reshape mu [- 1, int Z, int Y, int X, int M] = Inr mu5 \<and>
     shape mu5 = [S, Z, Y, X, M] \<and> dtype mu5 = dtype mu \<and>
     (\<forall>s z y x k. z < Z \<longrightarrow> y < Y \<longrightarrow> x < X \<longrightarrow> k < M \<longrightarrow>
        item mu5 [s, z, y, x, k] = item mu [s, ((z * Y + y) * X + x) * M + k])"
proof -
  let ?N = "Z * Y * X * M"
  have u: "unravel [S, ?N] (s * ?N + r) = [s, r]" if "r < ?N" for s r
    using div_mod_block [OF that, of s] by simp
  have k: "nat (int Z) * (nat (int Y) * (nat (int X) * nat (int M))) = ?N"
    by (simp add: mult.assoc)
  show ?thesis
    using assms u mixed_radix_less [of _ Z _ Y _ X _ M]
    by (simp add: np_reshape_def Let_def k ravel5 del: unravel.simps ravel.simps) 
qed

lemma which_of_rows:
  assumes "shape lp = [S, M]" "shape ss = [S, M]" "0 < M"
  shows "\<exists>ratio which.
     np_divide (np_map exp lp) (np_map sqrt ss) = Inr ratio \<and>
     np_argmax_axis1 ratio = Inr which \<and> shape which = [S] \<and>
     (\<forall>s < S. item which [s] =
        argmax_list (map (\<lambda>k. exp (item lp [s, k]) / sqrt (item ss [s, k])) [0..<M]) \<and>
        item which [s] < M)"
proof -
  let ?ratio = "\<lparr>dtype = dtype lp, shape = [S, M],
      item = (\<lambda>idx. exp (item lp (broadcast_index [S, M] idx)) /
                     sqrt (item ss (broadcast_index [S, M] idx)))\<rparr>"
  have d: "np_divide (np_map exp lp) (np_map sqrt ss) = Inr ?ratio"
    using assms(1,2) by (simp add: np_divide_def np_map_def broadcast_shapes_def)
  let ?which = "\<lparr>dtype = ''int64'', shape = [S],
      item = (\<lambda>idx. argmax_list (map (\<lambda>k. item ?ratio (hd idx # k # tl idx)) [0..<M]))\<rparr>"
  have a: "np_argmax_axis1 ?ratio = Inr ?which"
    using assms(3) by (simp add: np_argmax_axis1_def ndim_def)
  have b: "broadcast_index [S, M] [s, k] = [s, k]" if "s < S" "k < M" for s k
    using that by (auto simp: broadcast_index_def)
  have i: "item ?which [s] =
      argmax_list (map (\<lambda>k. exp (item lp [s, k]) / sqrt (item ss [s, k])) [0..<M])"
    if "s < S" for s
  proof -
    have "map (\<lambda>k. exp (item lp (broadcast_index [S, M] [s, k])) /
                   sqrt (item ss (broadcast_index [S, M] [s, k]))) [0..<M] =
          map (\<lambda>k. exp (item lp [s, k]) / sqrt (item ss [s, k])) [0..<M]"
      by (rule map_cong) (simp_all add: b [OF that])
    from arg_cong [OF this, of argmax_list] show ?thesis by (simp only: ndarray.simps list.sel)
  qed
  have l: "item ?which [s] < M" if "s < S" for s
    using argmax_list_less [of "map (\<lambda>k. exp (item lp [s, k]) / sqrt (item ss [s, k])) [0..<M]"]
      assms(3) i [OF that]
    by simp
  show ?thesis
    using d a i l by (intro exI [of _ ?ratio] exI [of _ ?which]) simp
qed

lemma all_indices_Cons_iff:
  "i # r \<in> set (all_indices (d # ds)) \<longleftrightarrow> i < d \<and> r \<in> set (all_indices ds)"
  by auto

lemma all_indices4:
  "idx \<in> set (all_indices [a, b, c, d]) \<longleftrightarrow>
     (\<exists>s < a. \<exists>z < b. \<exists>y < c. \<exists>x < d. idx = [s, z, y, x])"
proof
  assume "idx \<in> set (all_indices [a, b, c, d])"
  then show "\<exists>s < a. \<exists>z < b. \<exists>y < c. \<exists>x < d. idx = [s, z, y, x]"
    by auto
next
  assume "\<exists>s < a. \<exists>z < b. \<exists>y < c. \<exists>x < d. idx = [s, z, y, x]"
  then obtain s z y x where i: "s < a" "z < b" "y < c" "x < d" "idx = [s, z, y, x]"
    by blast
  have e: "[] \<in> set (all_indices [])"
    by simp
  show "idx \<in> set (all_indices [a, b, c, d])"
    unfolding i(5) all_indices_Cons_iff using i(1-4) e by simp
qed

lemma np_take_means:
  assumes mu: "shape mu5 = [S, Z, Y, X, M]"
    and wh: "shape which = [S]" "\<forall>s < S. item which [s] < M"
    and sx: "S = 1 \<or> S = X"
  shows "\<exists>r. np_take mu5 (np_indices [S, Z, Y, X] @ [which]) = Inr r \<and>
     shape r = [S, Z, Y, X] \<and> dtype r = dtype mu5 \<and>
     (\<forall>s < S. \<forall>z < Z. \<forall>y < Y. \<forall>x < X.
        item r [s, z, y, x] = item mu5 [s, z, y, x, item which [if S = 1 then 0 else x]])"
proof -
  let ?ixs = "np_indices [S, Z, Y, X] @ [which]"
  let ?pick = "\<lambda>idx. map (\<lambda>ix. item ix (broadcast_index (shape ix) idx)) ?ixs"
  have f: "fold (\<lambda>ix acc. Option.bind acc (broadcast_shapes (shape ix))) ?ixs (Some []) =
      Some [S, Z, Y, X]"
    using wh(1) sx by (auto simp: np_indices_def upt_4 broadcast_shapes_def)
  have p: "?pick [s, z, y, x] = [s, z, y, x, item which [if S = 1 then 0 else x]]"
    if "s < S" "z < Z" "y < Y" "x < X" for s z y x
    using that wh(1) by (auto simp: np_indices_def upt_4 broadcast_index_def)
  have w: "item which [if S = 1 then 0 else x] < M" if "x < X" "0 < S" for x
    using wh(2) sx that by auto
  have ok: "\<not> list_ex (\<lambda>idx. list_ex (\<lambda>(i, d). d \<le> i) (zip (?pick idx) (shape mu5)))
              (all_indices [S, Z, Y, X])"
  proof -
    have "\<not> list_ex (\<lambda>(i, d). d \<le> i) (zip (?pick idx) (shape mu5))"
      if "idx \<in> set (all_indices [S, Z, Y, X])" for idx
    proof -
      from that obtain s z y x where i: "s < S" "z < Z" "y < Y" "x < X" "idx = [s, z, y, x]"
        unfolding all_indices4 by blast
      show ?thesis
        unfolding i(5) p [OF i(1-4)] mu using i w [OF i(4)] by (simp add: not_le)
    qed
    then show ?thesis
      unfolding list_ex_iff by blast
  qed
  have l: "length ?ixs = ndim mu5"
    by (simp add: np_indices_def ndim_def mu)
  have "np_take mu5 ?ixs =
      Inr \<lparr>dtype = dtype mu5, shape = [S, Z, Y, X], item = (\<lambda>idx. item mu5 (?pick idx))\<rparr>"
    unfolding np_take_def using l f ok by (simp add: Let_def)
  then show ?thesis
    using p by auto
qed

text \<open>
  When \<open>S = 1\<close> or \<open>S = X\<close> the indexing broadcasts and \<open>predict\<close> returns an array of the
  shape of its input. Voxel \<open>[s, z, y, x]\<close> is the mean of the Gaussian selected by
  \<open>which[x]\<close> (by \<open>which[0]\<close> for a single sample): the index array \<open>which\<close>, of shape
  \<open>(S,)\<close>, is aligned with the last axis of the other index arrays, not with the sample
  axis.
\<close>

lemma predict_reconstruction:
  assumes a: "dtype array = ''float32''" "shape array = [S, Z, Y, X, 1]"
    and m: "model self = Some mdl" "kpredict mdl array = Inr pred"
      "shape pred = [S, 2 * M + Z * Y * X * M]"
    and g: "n_gaussians self = int M" "0 < M" "0 < Z" "0 < Y" "0 < X"
    and sx: "S = 1 \<or> S = X"
  shows "\<exists>r. fst (GaussianMixtureCAE_predict kpredict self array w) = Inr r \<and>
     shape r = shape array \<and> dtype r = dtype pred \<and>
     (\<forall>s < S. \<forall>z < Z. \<forall>y < Y. \<forall>x < X.
        item r [s, z, y, x, 0] =
          item pred [s, ((z * Y + y) * X + x) * M +
            argmax_list (map (\<lambda>k. exp (item pred [if S = 1 then 0 else x, k]) /
                                    sqrt (item pred [if S = 1 then 0 else x, k + M])) [0..<M]) +
            2 * M])"
proof -
  from np_split_axis1_parts [OF m(3), of M] obtain lp ss mu where
    p: "np_split_axis1 pred [int M, 2 * int M] = Inr [lp, ss, mu]"
      "shape lp = [S, M]" "shape ss = [S, M]" "shape mu = [S, Z * Y * X * M]"
      "dtype mu = dtype pred"
      "\<And>s k. item lp [s, k] = item pred [s, k]"
      "\<And>s k. item ss [s, k] = item pred [s, k + M]"
      "\<And>s j. item mu [s, j] = item pred [s, j + 2 * M]"
    by auto
  have n: "0 < Z * Y * X * M"
    using g by simp
  from np_reshape_means [OF p(4) n] obtain mu5 where
    r: "np_reshape mu [- 1, int Z, int Y, int X, int M] = Inr mu5"
      "shape mu5 = [S, Z, Y, X, M]" "dtype mu5 = dtype mu"
      "\<And>s z y x k. z < Z \<Longrightarrow> y < Y \<Longrightarrow> x < X \<Longrightarrow> k < M \<Longrightarrow>
        item mu5 [s, z, y, x, k] = item mu [s, ((z * Y + y) * X + x) * M + k]"
    by blast
  from which_of_rows [OF p(2,3) g(2)] obtain ratio which where
    q: "np_divide (np_map exp lp) (np_map sqrt ss) = Inr ratio"
      "np_argmax_axis1 ratio = Inr which" "shape which = [S]"
      "\<And>s. s < S \<Longrightarrow> item which [s] =
        argmax_list (map (\<lambda>k. exp (item lp [s, k]) / sqrt (item ss [s, k])) [0..<M])"
      "\<And>s. s < S \<Longrightarrow> item which [s] < M"
    by blast
  have wl: "\<forall>s < S. item which [s] < M"
    using q(5) by blast
  from np_take_means [OF r(2) q(3) wl sx] obtain r4 where
    t: "np_take mu5 (np_indices [S, Z, Y, X] @ [which]) = Inr r4"
      "shape r4 = [S, Z, Y, X]" "dtype r4 = dtype mu5"
      "\<And>s z y x. s < S \<Longrightarrow> z < Z \<Longrightarrow> y < Y \<Longrightarrow> x < X \<Longrightarrow>
        item r4 [s, z, y, x] = item mu5 [s, z, y, x, item which [if S = 1 then 0 else x]]"
    by blast
  let ?r = "r4\<lparr>shape := [S, Z, Y, X, 1],
                 item := (\<lambda>idx. item r4 (take 4 idx @ drop (Suc 4) idx))\<rparr>"
  have e: "np_expand_dims r4 4 = Inr ?r"
    using t(2) by (simp add: np_expand_dims_def ndim_def)
  have c: "check_input_array array = Inr ()"
    using a by (simp add: check_input_array_def ndim_def)
  have res: "fst (GaussianMixtureCAE_predict kpredict self array w) = Inr ?r"
    using c m(1,2) g(1) p(1) r(1) q(1,2) t(1) e a(2)
    by (simp add: GaussianMixtureCAE_predict_def model_predict_def Let_def bind_err_def)
  have v: "item ?r [s, z, y, x, 0] =
      item pred [s, ((z * Y + y) * X + x) * M +
        argmax_list (map (\<lambda>k. exp (item pred [if S = 1 then 0 else x, k]) /
                                sqrt (item pred [if S = 1 then 0 else x, k + M])) [0..<M]) +
        2 * M]"
    if i: "s < S" "z < Z" "y < Y" "x < X" for s z y x
  proof -
    let ?j = "if S = 1 then 0 else x"
    have j: "?j < S" using sx i(4) by auto
    have "item ?r [s, z, y, x, 0] = item r4 [s, z, y, x]"
      by simp
    also have "\<dots> = item mu5 [s, z, y, x, item which [?j]]"
      by (rule t(4) [OF i])
    also have "\<dots> = item mu [s, ((z * Y + y) * X + x) * M + item which [?j]]"
      by (rule r(4) [OF i(2-4) q(5) [OF j]])
    also have "\<dots> = item pred [s, ((z * Y + y) * X + x) * M + item which [?j] + 2 * M]"
      by (rule p(8))
    finally show ?thesis
      unfolding q(4) [OF j] p(6) p(7) .
  qed
  show ?thesis
    using res v a(2) t(3) r(3) p(5)
    by (intro exI [of _ ?r]) simp
qed

end
